theory Spec2Isabelle
  imports Complex_Main
begin

section \<open>JavaScript numbers\<close>

text \<open>
  The plugin (performance-monitor.js, v1.1.0) is modelled by state passing. A number of the
  program is an IEEE 754 double: \<open>Num r\<close> with the real value \<open>r\<close> of a finite double,
  \<open>NaN\<close>, or one of the infinities. Zero has no sign here (the program never divides by a
  zero that could be negative). Counts that the platform reports (bytes, blocks, ticks,
  clock readings) are integers and are given as \<open>nat\<close> or \<open>int\<close>; every such count that
  the program can receive is a double.
\<close>

datatype jsnum = Num real | NaN | Infinity | NegInfinity

definition pow2 :: "int \<Rightarrow> real" where
  "pow2 k = 2 powi k"

text \<open>The binary exponent of \<open>x\<close>, between \<open>e\<close> and 1023: the least one whose binade
  holds \<open>x\<close>.\<close>

function find_e :: "real \<Rightarrow> int \<Rightarrow> int" where
  "find_e x e = (if 1023 \<le> e \<or> \<bar>x\<bar> < pow2 (e + 1) then e else find_e x (e + 1))"
  by pat_completeness auto
termination
  by (relation "measure (\<lambda>(x, e). nat (1023 - e))") auto

declare find_e.simps [simp del]

text \<open>The nearest integer, ties to the even one.\<close>

definition round_even :: "real \<Rightarrow> int" where
  "round_even t =
     (let f = \<lfloor>t\<rfloor>; d = t - of_int f in
      if d < 1 / 2 then f
      else if 1 / 2 < d then f + 1
      else if even f then f else f + 1)"

text \<open>
  The double nearest to a real (round to nearest, ties to even): 53 significant bits,
  exponents from \<open>-1022\<close> (below it the spacing stays \<open>2^-1074\<close>) to 1023, and an
  infinity from \<open>2^1024\<close> on. Every arithmetic operation of the program returns the
  rounded exact result.
\<close>

definition fl :: "real \<Rightarrow> jsnum" where
  "fl x =
     (if x = 0 then Num 0
      else
        let e = find_e x (- 1022);
            u = pow2 (e - 52);
            r = of_int (round_even (x / u)) * u
        in if pow2 1024 \<le> \<bar>r\<bar> then (if 0 < x then Infinity else NegInfinity)
           else Num r)"

fun js_neg :: "jsnum \<Rightarrow> jsnum" where
  "js_neg (Num x) = Num (- x)"
| "js_neg NaN = NaN"
| "js_neg Infinity = NegInfinity"
| "js_neg NegInfinity = Infinity"

fun js_add :: "jsnum \<Rightarrow> jsnum \<Rightarrow> jsnum" where
  "js_add (Num x) (Num y) = fl (x + y)"
| "js_add NaN b = NaN"
| "js_add a NaN = NaN"
| "js_add Infinity NegInfinity = NaN"
| "js_add NegInfinity Infinity = NaN"
| "js_add Infinity b = Infinity"
| "js_add a Infinity = Infinity"
| "js_add NegInfinity b = NegInfinity"
| "js_add a NegInfinity = NegInfinity"

definition js_sub :: "jsnum \<Rightarrow> jsnum \<Rightarrow> jsnum" where
  "js_sub a b = js_add a (js_neg b)"

fun js_mul :: "jsnum \<Rightarrow> jsnum \<Rightarrow> jsnum" where
  "js_mul (Num x) (Num y) = fl (x * y)"
| "js_mul NaN b = NaN"
| "js_mul a NaN = NaN"
| "js_mul Infinity (Num y) = (if y = 0 then NaN else if 0 < y then Infinity else NegInfinity)"
| "js_mul NegInfinity (Num y) = (if y = 0 then NaN else if 0 < y then NegInfinity else Infinity)"
| "js_mul (Num x) Infinity = (if x = 0 then NaN else if 0 < x then Infinity else NegInfinity)"
| "js_mul (Num x) NegInfinity = (if x = 0 then NaN else if 0 < x then NegInfinity else Infinity)"
| "js_mul Infinity Infinity = Infinity"
| "js_mul NegInfinity NegInfinity = Infinity"
| "js_mul Infinity NegInfinity = NegInfinity"
| "js_mul NegInfinity Infinity = NegInfinity"

fun js_div :: "jsnum \<Rightarrow> jsnum \<Rightarrow> jsnum" where
  "js_div (Num x) (Num y) =
     (if y \<noteq> 0 then fl (x / y)
      else if x = 0 then NaN
      else if 0 < x then Infinity else NegInfinity)"
| "js_div NaN b = NaN"
| "js_div a NaN = NaN"
| "js_div (Num x) Infinity = Num 0"
| "js_div (Num x) NegInfinity = Num 0"
| "js_div Infinity (Num y) = (if 0 \<le> y then Infinity else NegInfinity)"
| "js_div NegInfinity (Num y) = (if 0 \<le> y then NegInfinity else Infinity)"
| "js_div a b = NaN"

text \<open>\<open>a < b\<close>; a comparison with \<open>NaN\<close> is false.\<close>

fun js_lt :: "jsnum \<Rightarrow> jsnum \<Rightarrow> bool" where
  "js_lt (Num x) (Num y) = (x < y)"
| "js_lt NaN b = False"
| "js_lt a NaN = False"
| "js_lt (Num x) Infinity = True"
| "js_lt NegInfinity (Num y) = True"
| "js_lt NegInfinity Infinity = True"
| "js_lt a b = False"

text \<open>Whether a number counts as true: every one but \<open>0\<close> and \<open>NaN\<close>.\<close>

fun js_truthy :: "jsnum \<Rightarrow> bool" where
  "js_truthy (Num x) = (x \<noteq> 0)"
| "js_truthy NaN = False"
| "js_truthy Infinity = True"
| "js_truthy NegInfinity = True"

text \<open>\<open>Math.round\<close>: the nearest integer, ties towards \<open>+\<infinity>\<close>; the result is a double
  whenever the argument is.\<close>

fun Math_round :: "jsnum \<Rightarrow> jsnum" where
  "Math_round (Num x) = Num (of_int \<lfloor>x + 1 / 2\<rfloor>)"
| "Math_round NaN = NaN"
| "Math_round Infinity = Infinity"
| "Math_round NegInfinity = NegInfinity"

text \<open>\<open>Math.max(0, x)\<close>.\<close>

fun Math_max0 :: "jsnum \<Rightarrow> jsnum" where
  "Math_max0 (Num x) = Num (max 0 x)"
| "Math_max0 NaN = NaN"
| "Math_max0 Infinity = Infinity"
| "Math_max0 NegInfinity = Num 0"

text \<open>\<open>Math.round(q * 1000) / 10\<close>, the one-decimal percentage of a quotient \<open>q\<close>.\<close>

definition percent1 :: "jsnum \<Rightarrow> jsnum" where
  "percent1 q = js_div (Math_round (js_mul q (Num 1000))) (Num 10)"

section \<open>JavaScript strings\<close>

text \<open>
  A string is the list of the bytes of its UTF-8 encoding. \<open>WhiteSpace\<close> lists the
  encodings of the code points that \<open>trim\<close> and \<open>parseInt\<close> skip: the white space and
  the line terminators of the language (U+0009 to U+000D, U+0020, U+00A0, U+1680, U+2000
  to U+200A, U+2028, U+2029, U+202F, U+205F, U+3000, U+FEFF).
\<close>

definition WhiteSpace :: "string list" where
  "WhiteSpace =
     [[CHR 0x09], [CHR 0x0A], [CHR 0x0B], [CHR 0x0C], [CHR 0x0D], [CHR 0x20],
      [CHR 0xC2, CHR 0xA0],
      [CHR 0xE1, CHR 0x9A, CHR 0x80],
      [CHR 0xE2, CHR 0x80, CHR 0x80], [CHR 0xE2, CHR 0x80, CHR 0x81],
      [CHR 0xE2, CHR 0x80, CHR 0x82], [CHR 0xE2, CHR 0x80, CHR 0x83],
      [CHR 0xE2, CHR 0x80, CHR 0x84], [CHR 0xE2, CHR 0x80, CHR 0x85],
      [CHR 0xE2, CHR 0x80, CHR 0x86], [CHR 0xE2, CHR 0x80, CHR 0x87],
      [CHR 0xE2, CHR 0x80, CHR 0x88], [CHR 0xE2, CHR 0x80, CHR 0x89],
      [CHR 0xE2, CHR 0x80, CHR 0x8A],
      [CHR 0xE2, CHR 0x80, CHR 0xA8], [CHR 0xE2, CHR 0x80, CHR 0xA9],
      [CHR 0xE2, CHR 0x80, CHR 0xAF],
      [CHR 0xE2, CHR 0x81, CHR 0x9F],
      [CHR 0xE3, CHR 0x80, CHR 0x80],
      [CHR 0xEF, CHR 0xBB, CHR 0xBF]]"

text \<open>The length of the sequence of \<open>seqs\<close> that \<open>s\<close> starts with, 0 when there is none.\<close>

definition ws_len :: "string list \<Rightarrow> string \<Rightarrow> nat" where
  "ws_len seqs s =
     (case find (\<lambda>w. w \<noteq> [] \<and> take (length w) s = w) seqs of
        Some w \<Rightarrow> length w
      | None \<Rightarrow> 0)"

text \<open>Dropping all leading sequences of \<open>seqs\<close>.\<close>

function strip_leading :: "string list \<Rightarrow> string \<Rightarrow> string" where
  "strip_leading seqs s =
     (if ws_len seqs s = 0 then s else strip_leading seqs (drop (ws_len seqs s) s))"
  by pat_completeness auto
termination
proof (relation "measure (\<lambda>(seqs, s). length s)")
  fix seqs :: "string list" and s :: string
  assume "ws_len seqs s \<noteq> 0"
  moreover from this have "s \<noteq> []"
    by (auto simp add: ws_len_def find_Some_iff split: option.splits)
  ultimately show "((seqs, drop (ws_len seqs s) s), (seqs, s)) \<in> measure (\<lambda>(seqs, s). length s)"
    by simp
qed simp

declare strip_leading.simps [simp del]

text \<open>\<open>String.prototype.trim\<close>.\<close>

definition trim :: "string \<Rightarrow> string" where
  "trim s = rev (strip_leading (map rev WhiteSpace) (rev (strip_leading WhiteSpace s)))"

text \<open>\<open>String.prototype.split\<close> with a one-character separator.\<close>

fun split :: "char \<Rightarrow> string \<Rightarrow> string list" where
  "split sep [] = [[]]"
| "split sep (c # cs) =
     (if c = sep then [] # split sep cs
      else (case split sep cs of [] \<Rightarrow> [[c]] | p # ps \<Rightarrow> (c # p) # ps))"

text \<open>The value of a character as a digit (\<open>0-9\<close>, \<open>a-z\<close>, \<open>A-Z\<close>), 36 when it is none.\<close>

definition digit_val :: "char \<Rightarrow> nat" where
  "digit_val c =
     (let n = (of_char c :: nat) in
      if 48 \<le> n \<and> n \<le> 57 then n - 48
      else if 97 \<le> n \<and> n \<le> 122 then n - 87
      else if 65 \<le> n \<and> n \<le> 90 then n - 55
      else 36)"

text \<open>
  \<open>parseInt(string, radix)\<close>; radix \<open>0\<close> stands for an omitted radix. Leading white space
  is skipped, one sign is read, a \<open>0x\<close> prefix selects radix 16 when the radix is omitted
  or 16, and the longest prefix of digits is read; the result is the double nearest to
  their value, \<open>NaN\<close> when there is no digit. The digits are read at their exact value;
  an implementation is free to read decimal digits after the twentieth as zeros, which
  this model does not do.
\<close>

definition parseInt :: "string \<Rightarrow> nat \<Rightarrow> jsnum" where
  "parseInt str radix =
     (let s1 = strip_leading WhiteSpace str;
          neg = (s1 \<noteq> [] \<and> hd s1 = CHR ''-'');
          s2 = (if s1 \<noteq> [] \<and> (hd s1 = CHR ''-'' \<or> hd s1 = CHR ''+'') then tl s1 else s1);
          strip = (radix = 0 \<or> radix = 16);
          r0 = (if radix = 0 then 10 else radix);
          pre = (strip \<and> (take 2 s2 = ''0x'' \<or> take 2 s2 = ''0X''));
          r = (if pre then 16 else r0);
          s3 = (if pre then drop 2 s2 else s2);
          z = takeWhile (\<lambda>c. digit_val c < r) s3
      in if r < 2 \<or> 36 < r then NaN
         else if z = [] then NaN
         else let m = foldl (\<lambda>a c. a * int r + int (digit_val c)) 0 z
              in fl (of_int (if neg then - m else m)))"

section \<open>Settings store\<close>

text \<open>
  A field of the parsed JSON request body. A number is given by the string that it
  converts to (\<open>JNumber ''2000''\<close>, \<open>JNumber ''1.5''\<close>, \<open>JNumber ''1e+21''\<close>), and so is an
  object or an array (\<open>JObject\<close>). A field that the body does not have is \<open>undefined\<close>:
  \<open>None\<close> in the map.
\<close>

datatype jsval = JNull | JBool bool | JNumber string | JStr string | JObject string

definition ToString :: "jsval \<Rightarrow> string" where
  "ToString v =
     (case v of JNull \<Rightarrow> ''null''
      | JBool b \<Rightarrow> (if b then ''true'' else ''false'')
      | JNumber s \<Rightarrow> s
      | JStr s \<Rightarrow> s
      | JObject s \<Rightarrow> s)"

text \<open>The only numbers of a JSON text that count as false are the zeros; both print as
  \<open>0\<close>.\<close>

definition truthy :: "jsval \<Rightarrow> bool" where
  "truthy v =
     (case v of JNull \<Rightarrow> False | JBool b \<Rightarrow> b | JNumber s \<Rightarrow> s \<noteq> ''0''
      | JStr s \<Rightarrow> s \<noteq> [] | JObject s \<Rightarrow> True)"

record settings =
  refreshInterval :: jsnum
  paneFontSize :: jsnum
  paneFontFamily :: jsval
  hudSize :: jsval
  hudTheme :: jsval
  hideHud :: bool

definition initial_settings :: settings where
  "initial_settings =
     \<lparr>refreshInterval = Num 2000, paneFontSize = Num 12,
      paneFontFamily = JStr ''Helvetica Neue'',
      hudSize = JStr ''Normal'', hudTheme = JStr ''classic'', hideHud = False\<rparr>"

text \<open>\<open>parseInt(v) || d\<close>: the default replaces \<open>NaN\<close> and \<open>0\<close>.\<close>

definition parseInt_or :: "jsval \<Rightarrow> jsnum \<Rightarrow> jsnum" where
  "parseInt_or v d =
     (let n = parseInt (ToString v) 0 in if js_truthy n then n else d)"

text \<open>\<open>v || d\<close> on values.\<close>

definition or_default :: "jsval \<Rightarrow> jsval \<Rightarrow> jsval" where
  "or_default v d = (if truthy v then v else d)"

text \<open>The handler of \<open>POST /performance-monitor/settings\<close>; the response is the new record.\<close>

definition post_settings :: "settings \<Rightarrow> (string \<rightharpoonup> jsval) \<Rightarrow> settings" where
  "post_settings s body =
     (let s1 = (case body ''refreshInterval'' of None \<Rightarrow> s
                | Some v \<Rightarrow> s\<lparr>refreshInterval := parseInt_or v (Num 2000)\<rparr>);
          s2 = (case body ''paneFontSize'' of None \<Rightarrow> s1
                | Some v \<Rightarrow> s1\<lparr>paneFontSize := parseInt_or v (Num 12)\<rparr>);
          s3 = (case body ''paneFontFamily'' of None \<Rightarrow> s2
                | Some v \<Rightarrow> s2\<lparr>paneFontFamily := or_default v (JStr ''Helvetica Neue'')\<rparr>);
          s4 = (case body ''hudSize'' of None \<Rightarrow> s3
                | Some v \<Rightarrow> s3\<lparr>hudSize := or_default v (JStr ''Normal'')\<rparr>);
          s5 = (case body ''hudTheme'' of None \<Rightarrow> s4
                | Some v \<Rightarrow> s4\<lparr>hudTheme := or_default v (JStr ''classic'')\<rparr>);
          s6 = (case body ''hideHud'' of None \<Rightarrow> s5
                | Some v \<Rightarrow> s5\<lparr>hideHud := truthy v\<rparr>)
      in s6)"

definition recognized :: "string set" where
  "recognized = {''refreshInterval'', ''paneFontSize'', ''paneFontFamily'', ''hudSize'',
                 ''hudTheme'', ''hideHud''}"

section \<open>Environment and state\<close>

text \<open>A path of the file system: absent, present but failing to read, or readable.\<close>

datatype fs_node = Absent | Unreadable | Content string

definition existsSync :: "(string \<Rightarrow> fs_node) \<Rightarrow> string \<Rightarrow> bool" where
  "existsSync fs p = (fs p \<noteq> Absent)"

text \<open>\<open>fs.readFileSync(p, 'utf8')\<close>; \<open>None\<close> when it throws.\<close>

definition readFileSync :: "(string \<Rightarrow> fs_node) \<Rightarrow> string \<Rightarrow> string option" where
  "readFileSync fs p = (case fs p of Content s \<Rightarrow> Some s | _ \<Rightarrow> None)"

definition CGROUP_V2_memoryMax :: string where
  "CGROUP_V2_memoryMax = ''/sys/fs/cgroup/memory.max''"

definition CGROUP_V2_memoryCurrent :: string where
  "CGROUP_V2_memoryCurrent = ''/sys/fs/cgroup/memory.current''"

definition CGROUP_V2_cpuMax :: string where
  "CGROUP_V2_cpuMax = ''/sys/fs/cgroup/cpu.max''"

definition CGROUP_V1_memoryLimit :: string where
  "CGROUP_V1_memoryLimit = ''/sys/fs/cgroup/memory/memory.limit_in_bytes''"

definition CGROUP_V1_memoryUsage :: string where
  "CGROUP_V1_memoryUsage = ''/sys/fs/cgroup/memory/memory.usage_in_bytes''"

definition CGROUP_V1_cpuQuota :: string where
  "CGROUP_V1_cpuQuota = ''/sys/fs/cgroup/cpu/cpu.cfs_quota_us''"

definition CGROUP_V1_cpuPeriod :: string where
  "CGROUP_V1_cpuPeriod = ''/sys/fs/cgroup/cpu/cpu.cfs_period_us''"

text \<open>The literal \<open>9223372036854771712\<close> is \<open>2^63 - 4096\<close>, a double.\<close>

definition MAX_MEMORY_LIMIT :: real where
  "MAX_MEMORY_LIMIT = 9223372036854771712"

type_synonym exn = string

record cpu_usage =
  user :: int
  system :: int

record memory_usage =
  rss :: nat
  heapTotal :: nat
  heapUsed :: nat
  external :: nat
  arrayBuffers :: "nat option"

record cpu_times =
  t_user :: real
  t_nice :: real
  t_sys :: real
  t_idle :: real
  t_irq :: real

record cpu =
  model :: string
  speed :: real
  cpu_times :: cpu_times

record statfs =
  blocks :: nat
  bsize :: nat
  bfree :: nat
  bavail :: nat

text \<open>The page counts that the regular expressions capture in the output of \<open>vm_stat\<close>;
  \<open>None\<close> where an expression does not match.\<close>

record vm_stat =
  pageSize :: "nat option"
  freePages :: "nat option"
  inactivePages :: "nat option"
  speculativePages :: "nat option"

text \<open>
  What the platform answers during one call. \<open>MemAvailable_kB\<close> is the number captured by
  \<open>/MemAvailable:\s+(\d+)\s+kB/\<close> in \<open>/proc/meminfo\<close> (a run of decimal digits, so a
  natural number), \<open>None\<close> when the file cannot be read or has no such line; \<open>exec_vm_stat\<close>
  is \<open>None\<close> when the command fails. \<open>fs_statfs\<close> is \<open>None\<close> when \<open>fs.statfs\<close> is not a
  function, and otherwise the pair \<open>(err, stats)\<close> handed to the callback.
  \<open>process_cpuUsage\<close> and \<open>process_hrtime\<close> are the readings of the first call,
  \<open>process_cpuUsage'\<close> and \<open>process_hrtime'\<close> those of the second one inside
  \<open>getCpuPercent\<close>. A reading of type \<open>exn + _\<close> may throw (\<open>Inl\<close> the message).
\<close>

record env =
  Date_now :: int
  os_platform :: string
  os_arch :: string
  os_totalmem :: nat
  os_freemem :: nat
  os_cpus :: "cpu list"
  os_cpus' :: "cpu list"
  os_uptime :: "exn + real"
  files :: "string \<Rightarrow> fs_node"
  MemAvailable_kB :: "nat option"
  exec_vm_stat :: "vm_stat option"
  fs_statfs :: "(exn option \<times> statfs option) option"
  process_version :: string
  process_pid :: nat
  process_uptime :: real
  process_memoryUsage :: "exn + memory_usage"
  process_cpuUsage :: cpu_usage
  process_hrtime :: int
  process_cpuUsage' :: cpu_usage
  process_hrtime' :: int

text \<open>A stored memory limit is a finite double; the CPU limit is the quotient as computed.\<close>

record container_info =
  isContainerized :: bool
  cgroupVersion :: "nat option"
  memoryLimit :: "real option"
  cpuLimit :: "jsnum option"

record memory_block =
  total :: real
  used :: jsnum
  free :: jsnum
  available :: jsnum
  usedPercent :: jsnum

text \<open>The zeroed default of \<open>getDiskUsage\<close> has no \<open>free\<close> field: \<open>disk_free = None\<close>.\<close>

record disk_block =
  mount :: string
  disk_total :: jsnum
  disk_used :: jsnum
  disk_free :: "jsnum option"
  disk_available :: jsnum
  disk_usedPercent :: jsnum

record cpu_info =
  cores :: nat
  effectiveCores :: jsnum
  cpu_model :: string
  cpu_speed :: real

record system_metrics =
  platform :: string
  arch :: string
  nodeVersion :: string
  cpu_percent :: jsnum
  sys_cpu :: cpu_info
  memory :: memory_block
  disk :: disk_block
  uptime :: real

record nodeRed_metrics =
  pid :: nat
  nr_uptime :: real
  nr_cpu :: jsnum
  nr_rss :: nat
  nr_heapTotal :: nat
  nr_heapUsed :: nat
  nr_external :: nat
  nr_arrayBuffers :: nat
  percentOfSystem :: jsnum
  nr_eventLoopLag :: jsnum

record metrics =
  timestamp :: int
  metrics_isContainerized :: bool
  metrics_system :: system_metrics
  metrics_nodeRed :: nodeRed_metrics

record metrics_cache =
  data :: "metrics option"
  cache_timestamp :: int

text \<open>The variables of the module and of the plugin closure.\<close>

record state =
  containerInfo :: "container_info option"
  settings :: settings
  lastCpuUsage :: cpu_usage
  lastCpuTime :: int
  lastCpuTimes :: "(real \<times> real) option"
  eventLoopLag :: real
  metricsCache :: metrics_cache

text \<open>The state when the plugin has been loaded, with the first readings as CPU baseline.\<close>

definition initial_state :: "cpu_usage \<Rightarrow> int \<Rightarrow> state" where
  "initial_state u t =
     \<lparr>containerInfo = None, settings = initial_settings, lastCpuUsage = u, lastCpuTime = t,
      lastCpuTimes = None, eventLoopLag = 0,
      metricsCache = \<lparr>data = None, cache_timestamp = 0\<rparr>\<rparr>"

section \<open>Container environment detector\<close>

definition unconfined :: container_info where
  "unconfined = \<lparr>isContainerized = False, cgroupVersion = None, memoryLimit = None,
                  cpuLimit = None\<rparr>"

text \<open>The last step of the \<open>try\<close> block: the marker file and the service-account directory.\<close>

definition check_markers :: "env \<Rightarrow> container_info \<Rightarrow> container_info" where
  "check_markers e ci =
     (if \<not> isContainerized ci then
        (if existsSync (files e) ''/.dockerenv''
            \<or> existsSync (files e) ''/var/run/secrets/kubernetes.io''
         then ci\<lparr>isContainerized := True\<rparr> else ci)
      else ci)"

text \<open>\<open>if (quota > 0 && period > 0)\<close> on two results of \<open>parseInt\<close>.\<close>

definition set_cpu_limit :: "jsnum \<Rightarrow> jsnum \<Rightarrow> container_info \<Rightarrow> container_info" where
  "set_cpu_limit quota period ci =
     (if js_lt (Num 0) quota \<and> js_lt (Num 0) period
      then ci\<lparr>cpuLimit := Some (js_div quota period), isContainerized := True\<rparr>
      else ci)"

text \<open>
  The body of \<open>detectContainerEnvironment\<close> on Linux, in the four stages of the source:
  the memory limit and the CPU limit of cgroup v2, and those of cgroup v1. The record is
  updated in place, so an exception (a failing read) leaves what was set before it and
  skips the rest of the \<open>try\<close> block, the check of the markers included. The test
  \<open>memLimit > 0 && memLimit < os.totalmem()\<close> fails for \<open>NaN\<close> and for both infinities,
  so only a finite limit is stored.
\<close>

definition v2_memory :: "env \<Rightarrow> string \<Rightarrow> container_info \<Rightarrow> container_info" where
  "v2_memory e raw ci =
     (let memMax = trim raw in
      if memMax \<noteq> ''max'' then
        (case parseInt memMax 10 of
           Num memLimit \<Rightarrow>
             if 0 < memLimit \<and> memLimit < real (os_totalmem e)
             then ci\<lparr>isContainerized := True, cgroupVersion := Some 2,
                     memoryLimit := Some memLimit\<rparr>
             else ci
         | _ \<Rightarrow> ci)
      else ci)"

definition v2_cpu :: "env \<Rightarrow> container_info \<Rightarrow> container_info" where
  "v2_cpu e ci =
     (if existsSync (files e) CGROUP_V2_cpuMax then
        (case readFileSync (files e) CGROUP_V2_cpuMax of
           None \<Rightarrow> ci
         | Some raw \<Rightarrow>
             let parts = split (CHR '' '') (trim raw) in
             check_markers e
               (if hd parts \<noteq> ''max'' \<and> length parts = 2
                then set_cpu_limit (parseInt (parts ! 0) 10) (parseInt (parts ! 1) 10) ci
                else ci))
      else check_markers e ci)"

definition v1_memory :: "env \<Rightarrow> string \<Rightarrow> container_info \<Rightarrow> container_info" where
  "v1_memory e raw ci =
     (case parseInt (trim raw) 10 of
        Num memLimit \<Rightarrow>
          if 0 < memLimit \<and> memLimit < MAX_MEMORY_LIMIT \<and> memLimit < real (os_totalmem e)
          then ci\<lparr>isContainerized := True, cgroupVersion := Some 1,
                  memoryLimit := Some memLimit\<rparr>
          else ci
      | _ \<Rightarrow> ci)"

definition v1_cpu :: "env \<Rightarrow> container_info \<Rightarrow> container_info" where
  "v1_cpu e ci =
     (if existsSync (files e) CGROUP_V1_cpuQuota \<and> existsSync (files e) CGROUP_V1_cpuPeriod then
        (case readFileSync (files e) CGROUP_V1_cpuQuota of
           None \<Rightarrow> ci
         | Some rawq \<Rightarrow>
             (case readFileSync (files e) CGROUP_V1_cpuPeriod of
                None \<Rightarrow> ci
              | Some rawp \<Rightarrow>
                  check_markers e
                    (set_cpu_limit (parseInt (trim rawq) 10) (parseInt (trim rawp) 10) ci)))
      else check_markers e ci)"

definition detect_linux :: "env \<Rightarrow> container_info" where
  "detect_linux e =
     (if existsSync (files e) CGROUP_V2_memoryMax then
        (case readFileSync (files e) CGROUP_V2_memoryMax of
           None \<Rightarrow> unconfined
         | Some raw \<Rightarrow> v2_cpu e (v2_memory e raw unconfined))
      else if existsSync (files e) CGROUP_V1_memoryLimit then
        (case readFileSync (files e) CGROUP_V1_memoryLimit of
           None \<Rightarrow> unconfined
         | Some raw \<Rightarrow> v1_cpu e (v1_memory e raw unconfined))
      else check_markers e unconfined)"

text \<open>\<open>detectContainerEnvironment\<close>: the record of the first call is kept and served.\<close>

definition detectContainerEnvironment :: "state \<Rightarrow> env \<Rightarrow> container_info \<times> state" where
  "detectContainerEnvironment s e =
     (case containerInfo s of
        Some ci \<Rightarrow> (ci, s)
      | None \<Rightarrow>
          let ci = (if os_platform e \<noteq> ''linux'' then unconfined else detect_linux e)
          in (ci, s\<lparr>containerInfo := Some ci\<rparr>))"

section \<open>Resource samplers\<close>

text \<open>
  The current usage that \<open>getContainerMemory\<close> reads for the detected cgroup version: the
  number parsed from the usage file, 0 when the version has no usage file here, and
  \<open>None\<close> when reading the file throws.
\<close>

definition read_usage :: "container_info \<Rightarrow> env \<Rightarrow> jsnum option" where
  "read_usage info e =
     (if cgroupVersion info = Some 2 \<and> existsSync (files e) CGROUP_V2_memoryCurrent then
        (case readFileSync (files e) CGROUP_V2_memoryCurrent of
           None \<Rightarrow> None
         | Some raw \<Rightarrow> Some (parseInt (trim raw) 10))
      else if cgroupVersion info = Some 1 \<and> existsSync (files e) CGROUP_V1_memoryUsage then
        (case readFileSync (files e) CGROUP_V1_memoryUsage of
           None \<Rightarrow> None
         | Some raw \<Rightarrow> Some (parseInt (trim raw) 10))
      else Some (Num 0))"

text \<open>The block that \<open>getContainerMemory\<close> builds from the limit and the current usage.\<close>

definition container_block :: "real \<Rightarrow> jsnum \<Rightarrow> memory_block" where
  "container_block limit currentUsage =
     \<lparr>total = limit,
      used = currentUsage,
      free = Math_max0 (js_sub (Num limit) currentUsage),
      available = Math_max0 (js_sub (Num limit) currentUsage),
      usedPercent = percent1 (js_div currentUsage (Num limit))\<rparr>"

text \<open>\<open>getContainerMemory\<close>; \<open>None\<close> is \<open>null\<close>. A failing read of the usage file is caught
  and gives \<open>null\<close>.\<close>

definition getContainerMemory :: "state \<Rightarrow> env \<Rightarrow> memory_block option \<times> state" where
  "getContainerMemory s e =
     (let (info, s') = detectContainerEnvironment s e in
      (case memoryLimit info of
         None \<Rightarrow> (None, s')
       | Some limit \<Rightarrow>
           if \<not> isContainerized info \<or> limit = 0 then (None, s')
           else
             (case read_usage info e of
                None \<Rightarrow> (None, s')
              | Some currentUsage \<Rightarrow> (Some (container_block limit currentUsage), s'))))"

text \<open>\<open>getContainerCpuLimit\<close>: \<open>info.cpuLimit || null\<close>.\<close>

definition getContainerCpuLimit :: "state \<Rightarrow> env \<Rightarrow> jsnum option \<times> state" where
  "getContainerCpuLimit s e =
     (let (info, s') = detectContainerEnvironment s e in
      ((case cpuLimit info of None \<Rightarrow> None
        | Some l \<Rightarrow> if js_truthy l then Some l else None), s'))"

text \<open>A count captured by \<open>(\d+)\<close> and read by \<open>parseInt\<close>, with the default for no match.\<close>

definition captured :: "nat option \<Rightarrow> nat \<Rightarrow> jsnum" where
  "captured c d = (case c of Some n \<Rightarrow> fl (real n) | None \<Rightarrow> Num (real d))"

text \<open>The free memory of the host: \<open>os.freemem()\<close>, refined on Linux and on Darwin.\<close>

definition host_freeMem :: "env \<Rightarrow> jsnum" where
  "host_freeMem e =
     (if os_platform e = ''linux'' then
        (case MemAvailable_kB e of
           Some kb \<Rightarrow> js_mul (fl (real kb)) (Num 1024)
         | None \<Rightarrow> Num (real (os_freemem e)))
      else if os_platform e = ''darwin'' then
        (case exec_vm_stat e of
           Some v \<Rightarrow>
             js_mul
               (js_add (js_add (captured (freePages v) 0) (captured (inactivePages v) 0))
                  (captured (speculativePages v) 0))
               (captured (pageSize v) 4096)
         | None \<Rightarrow> Num (real (os_freemem e)))
      else Num (real (os_freemem e)))"

definition host_block :: "env \<Rightarrow> memory_block" where
  "host_block e =
     (let totalMem = Num (real (os_totalmem e));
          freeMem = host_freeMem e;
          usedMem = Math_max0 (js_sub totalMem freeMem)
      in \<lparr>total = real (os_totalmem e),
          used = usedMem,
          free = freeMem,
          available = freeMem,
          usedPercent = percent1 (js_div usedMem totalMem)\<rparr>)"

definition getSystemMemory :: "state \<Rightarrow> env \<Rightarrow> memory_block \<times> state" where
  "getSystemMemory s e =
     (case getContainerMemory s e of
        (Some containerMem, s') \<Rightarrow> (containerMem, s')
      | (None, s') \<Rightarrow> (host_block e, s'))"

text \<open>
  \<open>getCpuPercent\<close>. \<open>process.cpuUsage(lastCpuUsage)\<close> is the difference of the reading to the
  baseline; the elapsed time is \<open>Number(currentTime - lastCpuTime) / 1e6\<close>. The
  percentage is carried as the exact real; the aggregator rounds it to a double.
\<close>

definition getCpuPercent :: "state \<Rightarrow> env \<Rightarrow> real \<times> state" where
  "getCpuPercent s e =
     (let currentCpuUsage =
            \<lparr>user = user (process_cpuUsage e) - user (lastCpuUsage s),
             system = system (process_cpuUsage e) - system (lastCpuUsage s)\<rparr>;
          currentTime = process_hrtime e;
          elapsedMs = real_of_int (currentTime - lastCpuTime s) / 1000000
      in if elapsedMs \<le> 0 then (0, s)
         else
           let totalCpuMicros = real_of_int (user currentCpuUsage + system currentCpuUsage);
               cpuPercent = (totalCpuMicros / 1000) / elapsedMs * 100;
               s' = s\<lparr>lastCpuUsage := process_cpuUsage' e, lastCpuTime := process_hrtime' e\<rparr>
           in (min (max cpuPercent 0) 100, s'))"

definition getCpuInfo :: "state \<Rightarrow> env \<Rightarrow> cpu_info \<times> state" where
  "getCpuInfo s e =
     (let cpus = os_cpus e;
          (containerCpuLimit, s') = getContainerCpuLimit s e
      in (\<lparr>cores = length cpus,
           effectiveCores =
             (case containerCpuLimit of Some l \<Rightarrow> l | None \<Rightarrow> Num (real (length cpus))),
           cpu_model = (if 0 < length cpus then model (hd cpus) else ''Unknown''),
           cpu_speed = (if 0 < length cpus then speed (hd cpus) else 0)\<rparr>, s'))"

definition tick_sum :: "cpu_times \<Rightarrow> real" where
  "tick_sum t = t_user t + t_nice t + t_sys t + t_idle t + t_irq t"

definition getSystemCpuUsage :: "state \<Rightarrow> env \<Rightarrow> real \<times> state" where
  "getSystemCpuUsage s e =
     (let cpus = os_cpus' e;
          totalTick = foldl (\<lambda>a c. a + tick_sum (cpu_times c)) 0 cpus;
          totalIdle = foldl (\<lambda>a c. a + t_idle (cpu_times c)) 0 cpus;
          percentage =
            (case lastCpuTimes s of
               Some (idle, tot) \<Rightarrow>
                 if 0 < totalTick - tot
                 then 100 - (100 * (totalIdle - idle) / (totalTick - tot))
                 else 0
             | None \<Rightarrow> 0)
      in (max 0 (min percentage 100), s\<lparr>lastCpuTimes := Some (totalIdle, totalTick)\<rparr>))"

definition defaultDisk :: disk_block where
  "defaultDisk = \<lparr>mount = ''/'', disk_total = Num 0, disk_used = Num 0, disk_free = None,
                  disk_available = Num 0, disk_usedPercent = Num 0\<rparr>"

text \<open>The mount point \<open>C:\\\<close> of Windows: the letter, a colon and one backslash.\<close>

definition windows_root :: string where
  "windows_root = [CHR ''C'', CHR '':'', CHR 0x5C]"

definition getDiskUsage :: "env \<Rightarrow> disk_block" where
  "getDiskUsage e =
     (case fs_statfs e of
        None \<Rightarrow> defaultDisk
      | Some (err, stats) \<Rightarrow>
          let mountPoint = (if os_platform e = ''win32'' then windows_root else ''/'') in
          (case (err, stats) of
             (None, Some st) \<Rightarrow>
               let tot = js_mul (Num (real (blocks st))) (Num (real (bsize st)));
                   fre = js_mul (Num (real (bfree st))) (Num (real (bsize st)));
                   avail = js_mul (Num (real (bavail st))) (Num (real (bsize st)));
                   usd = js_sub tot fre
               in \<lparr>mount = mountPoint, disk_total = tot, disk_used = usd,
                   disk_free = Some avail, disk_available = avail,
                   disk_usedPercent =
                     (if js_lt (Num 0) tot then percent1 (js_div usd tot) else Num 0)\<rparr>
           | _ \<Rightarrow> defaultDisk))"

section \<open>Metrics aggregator\<close>

text \<open>What \<open>collectMetrics\<close> resolves to: a snapshot or the object \<open>{error: message}\<close>.\<close>

datatype response = Metrics metrics | ErrorIndicator exn

text \<open>\<open>Math.round(x * k) / k\<close>.\<close>

definition round_to :: "real \<Rightarrow> jsnum \<Rightarrow> jsnum" where
  "round_to k x = js_div (Math_round (js_mul x (Num k))) (Num k)"

text \<open>
  The \<open>try\<close> block of \<open>collectMetrics\<close>: the samplers in the order of the source, then the
  snapshot. It ends with the snapshot or with the message of the exception thrown; the
  state carries what the samplers changed until then.
\<close>

definition collect_try :: "state \<Rightarrow> env \<Rightarrow> (exn + metrics) \<times> state" where
  "collect_try s e =
     (case process_memoryUsage e of
        Inl msg \<Rightarrow> (Inl msg, s)
      | Inr memoryUsage \<Rightarrow>
          let (systemMemory, s1) = getSystemMemory s e;
              (cpuPercent, s2) = getCpuPercent s1 e;
              (cpuInfo, s3) = getCpuInfo s2 e;
              diskUsage = getDiskUsage e;
              (systemCpuPercent, s4) = getSystemCpuUsage s3 e;
              (containerEnv, s5) = detectContainerEnvironment s4 e
          in (case os_uptime e of
                Inl msg \<Rightarrow> (Inl msg, s5)
              | Inr up \<Rightarrow>
                  (Inr \<lparr>timestamp = Date_now e,
                        metrics_isContainerized = isContainerized containerEnv,
                        metrics_system =
                          \<lparr>platform = os_platform e, arch = os_arch e,
                           nodeVersion = process_version e,
                           cpu_percent = round_to 10 (fl systemCpuPercent),
                           sys_cpu = cpuInfo, memory = systemMemory, disk = diskUsage,
                           uptime = up\<rparr>,
                        metrics_nodeRed =
                          \<lparr>pid = process_pid e, nr_uptime = process_uptime e,
                           nr_cpu = round_to 10 (fl cpuPercent),
                           nr_rss = rss memoryUsage, nr_heapTotal = heapTotal memoryUsage,
                           nr_heapUsed = heapUsed memoryUsage,
                           nr_external = external memoryUsage,
                           nr_arrayBuffers =
                             (case arrayBuffers memoryUsage of Some n \<Rightarrow> n | None \<Rightarrow> 0),
                           percentOfSystem =
                             js_mul (js_div (Num (real (rss memoryUsage)))
                                       (Num (total systemMemory)))
                               (Num 100),
                           nr_eventLoopLag = round_to 100 (fl (eventLoopLag s5))\<rparr>\<rparr>,
                   s5)))"

text \<open>The test at the head of \<open>collectMetrics\<close>: the snapshot to serve from the cache, if
  any. Both clock readings are integers, so their difference is exact.\<close>

definition cache_hit :: "state \<Rightarrow> int \<Rightarrow> metrics option" where
  "cache_hit s now =
     (case data (metricsCache s) of
        None \<Rightarrow> None
      | Some d \<Rightarrow>
          if js_lt (Num (real_of_int (now - cache_timestamp (metricsCache s))))
               (js_div (refreshInterval (settings s)) (Num 2))
          then Some d else None)"

definition collectMetrics :: "state \<Rightarrow> env \<Rightarrow> response \<times> state" where
  "collectMetrics s e =
     (let now = Date_now e in
      (case cache_hit s now of
         Some d \<Rightarrow> (Metrics d, s)
       | None \<Rightarrow>
           (case collect_try s e of
              (Inr m, s') \<Rightarrow>
                (Metrics m, s'\<lparr>metricsCache := \<lparr>data = Some m, cache_timestamp = now\<rparr>\<rparr>)
            | (Inl msg, s') \<Rightarrow>
                ((case data (metricsCache s') of
                    Some d \<Rightarrow> Metrics d
                  | None \<Rightarrow> ErrorIndicator msg), s'))))"

text \<open>The \<open>timestamp\<close> field of a response; the error object has none.\<close>

definition response_timestamp :: "response \<Rightarrow> int option" where
  "response_timestamp r = (case r of Metrics m \<Rightarrow> Some (timestamp m) | ErrorIndicator msg \<Rightarrow> None)"

text \<open>
  The cache at a clock reading \<open>now\<close>: a cached snapshot bears the timestamp of the cache,
  and that timestamp is not later than \<open>now\<close> (the clock has not been set back since).
\<close>

definition cache_consistent :: "state \<Rightarrow> int \<Rightarrow> bool" where
  "cache_consistent s now =
     (case data (metricsCache s) of
        None \<Rightarrow> True
      | Some d \<Rightarrow> timestamp d = cache_timestamp (metricsCache s)
                 \<and> cache_timestamp (metricsCache s) \<le> now)"

section \<open>Sample environments\<close>

text \<open>
  A Linux host with 16 GiB of memory, 8 GiB of it free, no cgroup files, no container
  marker and no \<open>MemAvailable\<close> line; every reading succeeds.
\<close>

definition linux_host :: env where
  "linux_host =
     \<lparr>Date_now = 10000, os_platform = ''linux'', os_arch = ''x64'',
      os_totalmem = 17179869184, os_freemem = 8589934592,
      os_cpus = [], os_cpus' = [], os_uptime = Inr 3600,
      files = (\<lambda>p. Absent), MemAvailable_kB = None, exec_vm_stat = None,
      fs_statfs = None, process_version = ''v20.11.0'', process_pid = 4242,
      process_uptime = 60,
      process_memoryUsage =
        Inr \<lparr>rss = 104857600, heapTotal = 83886080, heapUsed = 62914560,
             external = 5242880, arrayBuffers = Some 2097152\<rparr>,
      process_cpuUsage = \<lparr>user = 0, system = 0\<rparr>, process_hrtime = 0,
      process_cpuUsage' = \<lparr>user = 0, system = 0\<rparr>, process_hrtime' = 0\<rparr>"

text \<open>The state of a freshly loaded plugin whose CPU baseline was read at time 0.\<close>

definition fresh_state :: state where
  "fresh_state = initial_state \<lparr>user = 0, system = 0\<rparr> 0"

text \<open>A file system that holds exactly the listed files.\<close>

definition files_of :: "(string \<times> string) list \<Rightarrow> string \<Rightarrow> fs_node" where
  "files_of kvs p = (case map_of kvs p of Some c \<Rightarrow> Content c | None \<Rightarrow> Absent)"

section \<open>Rounding to doubles\<close>

lemma pow2_pos [simp]: "0 < pow2 k"
  by (simp add: pow2_def)

lemma pow2_neq0 [simp]: "pow2 k \<noteq> 0"
  by (simp add: pow2_def)

lemma pow2_nonneg [simp]: "0 \<le> pow2 k" "\<bar>pow2 k\<bar> = pow2 k"
  by (simp_all add: pow2_def)

lemma pow2_add: "pow2 (a + b) = pow2 a * pow2 b"
  by (simp add: pow2_def power_int_add)

lemma pow2_mono: "a \<le> b \<Longrightarrow> pow2 a \<le> pow2 b"
  unfolding pow2_def by (rule power_int_increasing) simp_all

lemma pow2_strict_mono: "a < b \<Longrightarrow> pow2 a < pow2 b"
  unfolding pow2_def by (rule power_int_strict_increasing) simp_all

lemma pow2_le_iff: "pow2 a \<le> pow2 b \<longleftrightarrow> a \<le> b"
  using pow2_mono [of a b] pow2_strict_mono [of b a] by (cases "a \<le> b") auto

lemma pow2_less_iff: "pow2 a < pow2 b \<longleftrightarrow> a < b"
  using pow2_strict_mono [of a b] pow2_mono [of b a] by (cases "a < b") auto

lemma pow2_nat: "0 \<le> k \<Longrightarrow> pow2 k = of_int (2 ^ nat k)"
  by (simp add: pow2_def power_int_def)

lemma pow2_eval:
  "pow2 0 = 1" "pow2 1 = 2"
  "pow2 (numeral n) = 2 ^ numeral n"
  "pow2 (- numeral n) = 1 / 2 ^ numeral n"
  "pow2 (- 1) = 1 / 2"
  by (simp_all add: pow2_def power_int_minus_divide)

lemma find_e_lower: "find_e x e0 = e0 \<or> pow2 (find_e x e0) \<le> \<bar>x\<bar>"
proof (induction x e0 rule: find_e.induct)
  case (1 x e)
  show ?case
  proof (cases "1023 \<le> e \<or> \<bar>x\<bar> < pow2 (e + 1)")
    case True
    then show ?thesis by (subst find_e.simps) simp
  next
    case False
    then have eq: "find_e x e = find_e x (e + 1)" by (subst find_e.simps) simp
    from False have "pow2 (e + 1) \<le> \<bar>x\<bar>" by simp
    with 1 [OF False] show ?thesis unfolding eq by auto
  qed
qed

lemma find_e_upper: "1023 \<le> find_e x e0 \<or> \<bar>x\<bar> < pow2 (find_e x e0 + 1)"
proof (induction x e0 rule: find_e.induct)
  case (1 x e)
  show ?case
  proof (cases "1023 \<le> e \<or> \<bar>x\<bar> < pow2 (e + 1)")
    case True
    then show ?thesis by (subst find_e.simps, subst find_e.simps) auto
  next
    case False
    then have eq: "find_e x e = find_e x (e + 1)" by (subst find_e.simps) simp
    from 1 [OF False] show ?thesis unfolding eq by auto
  qed
qed

lemma find_e_eq:
  assumes "e0 \<le> e" "e \<le> 1023" "e = e0 \<or> pow2 e \<le> \<bar>x\<bar>" "\<bar>x\<bar> < pow2 (e + 1) \<or> e = 1023"
  shows "find_e x e0 = e"
  using assms
proof (induction "nat (e - e0)" arbitrary: e0)
  case 0
  then have "e0 = e" by simp
  with 0 show ?case by (subst find_e.simps) auto
next
  case (Suc n)
  then have lt: "e0 < e" by simp
  with Suc.prems have low: "pow2 e \<le> \<bar>x\<bar>" by simp
  have "pow2 (e0 + 1) \<le> pow2 e"
    using lt by (intro pow2_mono) simp
  with low have "\<not> \<bar>x\<bar> < pow2 (e0 + 1)" by simp
  moreover have "\<not> 1023 \<le> e0" using lt Suc.prems by simp
  ultimately have eq: "find_e x e0 = find_e x (e0 + 1)" by (subst find_e.simps) simp
  have "find_e x (e0 + 1) = e"
    using Suc.hyps(2) lt low Suc.prems by (intro Suc.hyps(1)) auto
  with eq show ?case by simp
qed

lemma round_even_int [simp]: "round_even (of_int k) = k"
  by (simp add: round_even_def)

lemma round_even_mono_int: "of_int k \<le> t \<Longrightarrow> k \<le> round_even t"
proof -
  assume "of_int k \<le> t"
  then have "k \<le> \<lfloor>t\<rfloor>" by (simp add: le_floor_iff)
  then show ?thesis by (auto simp add: round_even_def Let_def)
qed

lemma round_even_le_int: "t \<le> of_int k \<Longrightarrow> round_even t \<le> k"
proof -
  assume a: "t \<le> of_int k"
  then have f: "\<lfloor>t\<rfloor> \<le> k" by (simp add: floor_le_iff)
  show ?thesis
  proof (cases "\<lfloor>t\<rfloor> = k")
    case True
    with a have "t - of_int \<lfloor>t\<rfloor> \<le> 0" by simp
    then show ?thesis using True by (simp add: round_even_def Let_def)
  next
    case False
    with f have "\<lfloor>t\<rfloor> + 1 \<le> k" by simp
    then show ?thesis by (auto simp add: round_even_def Let_def)
  qed
qed

lemma round_even_abs_le:
  assumes "\<bar>t\<bar> \<le> of_int k"
  shows "\<bar>real_of_int (round_even t)\<bar> \<le> of_int k"
proof -
  from assms have "t \<le> of_int k" and "of_int (- k) \<le> t" by simp_all
  then have "round_even t \<le> k" and "- k \<le> round_even t"
    by (simp_all add: round_even_le_int round_even_mono_int)
  then show ?thesis by linarith
qed

lemma fl_eval:
  assumes "x \<noteq> 0" "- 1022 \<le> e" "e \<le> 1022"
    and "e = - 1022 \<or> pow2 e \<le> \<bar>x\<bar>" "\<bar>x\<bar> < pow2 (e + 1)"
  shows "fl x = Num (of_int (round_even (x / pow2 (e - 52))) * pow2 (e - 52))"
proof -
  have fe: "find_e x (- 1022) = e"
    using assms by (intro find_e_eq) auto
  let ?u = "pow2 (e - 52)"
  have "pow2 (e + 1) = pow2 (53 + (e - 52))"
    by (rule arg_cong [where f = pow2]) simp
  then have split: "pow2 (e + 1) = pow2 53 * ?u"
    by (simp only: pow2_add)
  have p53: "pow2 53 = of_int (2 ^ 53)" by (simp add: pow2_nat)
  have "\<bar>x / ?u\<bar> = \<bar>x\<bar> / ?u" by simp
  also have "\<dots> \<le> pow2 (e + 1) / ?u"
    using assms(5) by (intro divide_right_mono) simp_all
  also have "\<dots> = pow2 53" unfolding split by simp
  finally have "\<bar>x / ?u\<bar> \<le> of_int (2 ^ 53)" unfolding p53 .
  then have "\<bar>real_of_int (round_even (x / ?u))\<bar> \<le> of_int (2 ^ 53)"
    by (rule round_even_abs_le)
  then have "\<bar>of_int (round_even (x / ?u)) * ?u\<bar> \<le> pow2 53 * ?u"
    unfolding p53 by (simp add: abs_mult mult_right_mono)
  also have "\<dots> = pow2 (e + 1)" unfolding split ..
  also have "\<dots> < pow2 1024"
    using assms(3) by (intro pow2_strict_mono) simp
  finally have "\<not> pow2 1024 \<le> \<bar>of_int (round_even (x / ?u)) * ?u\<bar>" by simp
  then show ?thesis
    using assms(1) unfolding fl_def fe Let_def by (simp only: if_False)
qed

lemma fl_overflow:
  assumes "pow2 1024 \<le> \<bar>x\<bar>"
  shows "fl x = (if 0 < x then Infinity else NegInfinity)"
proof -
  have "pow2 1023 \<le> pow2 1024" by (intro pow2_mono) simp
  with assms have low: "pow2 1023 \<le> \<bar>x\<bar>" by linarith
  then have fe: "find_e x (- 1022) = 1023"
    by (intro find_e_eq) auto
  have "0 < pow2 1024" by simp
  with assms have "0 < \<bar>x\<bar>" by linarith
  then have nz: "x \<noteq> 0" by simp
  let ?u = "pow2 971"
  have "pow2 1024 = pow2 (53 + 971)"
    by (rule arg_cong [where f = pow2]) simp
  then have split: "pow2 1024 = pow2 53 * ?u"
    by (simp only: pow2_add)
  have p53: "pow2 53 = of_int (2 ^ 53)" by (simp add: pow2_nat)
  have "pow2 53 = pow2 1024 / ?u" unfolding split by simp
  also have "\<dots> \<le> \<bar>x\<bar> / ?u"
    using assms by (intro divide_right_mono) simp_all
  finally have big: "of_int (2 ^ 53) \<le> \<bar>x / ?u\<bar>" unfolding p53 by simp
  have "of_int (2 ^ 53) \<le> \<bar>real_of_int (round_even (x / ?u))\<bar>"
  proof (cases "0 \<le> x")
    case True
    with big have "of_int (2 ^ 53) \<le> x / ?u" by simp
    then have "2 ^ 53 \<le> round_even (x / ?u)" by (rule round_even_mono_int)
    then show ?thesis by linarith
  next
    case False
    then have "\<bar>x / ?u\<bar> = - (x / ?u)" by (simp add: divide_nonpos_pos)
    with big have "x / ?u \<le> of_int (- (2 ^ 53))" by simp
    then have "round_even (x / ?u) \<le> - (2 ^ 53)" by (rule round_even_le_int)
    then show ?thesis by linarith
  qed
  then have "pow2 53 * ?u \<le> \<bar>of_int (round_even (x / ?u)) * ?u\<bar>"
    unfolding p53 by (simp add: abs_mult mult_right_mono)
  then have "pow2 1024 \<le> \<bar>of_int (round_even (x / ?u)) * ?u\<bar>" unfolding split .
  then show ?thesis
    using nz unfolding fl_def fe Let_def by simp
qed

lemma scale_int:
  assumes "e \<le> 52"
  shows "real_of_int n / pow2 (e - 52) = of_int (n * 2 ^ nat (52 - e))"
proof -
  have "pow2 (e - 52 + (52 - e)) = pow2 0"
    by (rule arg_cong [where f = pow2]) simp
  then have prod: "pow2 (e - 52) * pow2 (52 - e) = 1"
    by (simp only: pow2_add pow2_eval)
  have "real_of_int n / pow2 (e - 52)
          = real_of_int n * (pow2 (e - 52) * pow2 (52 - e)) / pow2 (e - 52)"
    by (simp only: prod mult_1_right)
  also have "\<dots> = of_int n * pow2 (52 - e)" by simp
  also have "\<dots> = of_int (n * 2 ^ nat (52 - e))"
    using assms by (simp add: pow2_nat)
  finally show ?thesis .
qed

lemma fl_exact:
  assumes "x \<noteq> 0" "x / pow2 (find_e x (- 1022) - 52) = of_int k" "\<bar>x\<bar> < pow2 1024"
  shows "fl x = Num x"
proof -
  let ?u = "pow2 (find_e x (- 1022) - 52)"
  have "x = x / ?u * ?u" by simp
  then have "of_int (round_even (x / ?u)) * ?u = x"
    unfolding assms(2) round_even_int by simp
  then show ?thesis
    using assms(1,3) unfolding fl_def Let_def by simp
qed

lemma fl_int:
  assumes "\<bar>n\<bar> \<le> 2 ^ 53"
  shows "fl (of_int n) = Num (of_int n)"
proof (cases "n = 0")
  case True
  then show ?thesis by (simp add: fl_def)
next
  case False
  let ?x = "real_of_int n"
  let ?e = "find_e ?x (- 1022)"
  have p53: "pow2 53 = of_int (2 ^ 53)" by (simp add: pow2_nat)
  from False have "1 \<le> \<bar>n\<bar>" by simp
  then have one: "pow2 0 \<le> \<bar>?x\<bar>" unfolding pow2_eval by linarith
  from assms have top: "\<bar>?x\<bar> \<le> pow2 53"
    unfolding p53 by (metis of_int_abs of_int_le_iff)
  have e53: "?e \<le> 53"
  proof (cases "?e = - 1022")
    case True then show ?thesis by simp
  next
    case False
    with find_e_lower [of ?x "- 1022"] have "pow2 ?e \<le> \<bar>?x\<bar>" by simp
    with top have "pow2 ?e \<le> pow2 53" by linarith
    then show ?thesis by (simp only: pow2_le_iff)
  qed
  with find_e_upper [of ?x "- 1022"] have up: "\<bar>?x\<bar> < pow2 (?e + 1)" by simp
  with one have "pow2 0 < pow2 (?e + 1)" by linarith
  then have e0: "0 \<le> ?e" by (simp add: pow2_less_iff)
  have low: "pow2 ?e \<le> \<bar>?x\<bar>"
    using find_e_lower [of ?x "- 1022"] e0 by auto
  have "\<exists>k. ?x / pow2 (?e - 52) = of_int k"
  proof (cases "?e \<le> 52")
    case True
    then show ?thesis using scale_int by blast
  next
    case False
    with e53 have e: "?e = 53" by simp
    with low top have "\<bar>?x\<bar> = pow2 53" by simp
    then have "\<bar>?x\<bar> = of_int (2 ^ 53)" by (simp only: p53)
    then have "\<bar>n\<bar> = 2 ^ 53" by (metis of_int_abs of_int_eq_iff)
    then have "n = 2 ^ 53 \<or> n = - (2 ^ 53)" by linarith
    then have "n = 2 * (n div 2)" by auto
    then have "?x = 2 * of_int (n div 2)" by (metis of_int_mult of_int_numeral)
    then have "?x / pow2 (?e - 52) = of_int (n div 2)" unfolding e by (simp add: pow2_eval)
    then show ?thesis by blast
  qed
  then obtain k where k: "?x / pow2 (?e - 52) = of_int k" by blast
  have "pow2 53 < pow2 1024" by (intro pow2_strict_mono) simp
  with top have "\<bar>?x\<bar> < pow2 1024" by linarith
  with False k show ?thesis by (intro fl_exact [of ?x k]) simp_all
qed

lemma fl_numeral:
  "(numeral k :: int) \<le> 9007199254740992 \<Longrightarrow> fl (numeral k) = Num (numeral k)"
  "(numeral k :: int) \<le> 9007199254740992 \<Longrightarrow> fl (- numeral k) = Num (- numeral k)"
  "fl 0 = Num 0" "fl 1 = Num 1"
  using fl_int [of "numeral k"] fl_int [of "- numeral k"] fl_int [of 0] fl_int [of 1]
  by simp_all

lemma fl_of_int_cases:
  "fl (of_int n) = Infinity \<or> fl (of_int n) = NegInfinity \<or> (\<exists>k. fl (of_int n) = Num (of_int k))"
proof (cases "n = 0")
  case True
  then show ?thesis using fl_int [of 0] by auto
next
  case False
  let ?x = "real_of_int n"
  let ?e = "find_e ?x (- 1022)"
  let ?m = "round_even (?x / pow2 (?e - 52))"
  have "\<exists>k. of_int ?m * pow2 (?e - 52) = real_of_int k"
  proof (cases "52 \<le> ?e")
    case True
    then have "of_int ?m * pow2 (?e - 52) = real_of_int (?m * 2 ^ nat (?e - 52))"
      by (simp add: pow2_nat)
    then show ?thesis by blast
  next
    case False
    then have "?x / pow2 (?e - 52) = of_int (n * 2 ^ nat (52 - ?e))"
      by (intro scale_int) simp
    then have "of_int ?m * pow2 (?e - 52) = (?x / pow2 (?e - 52)) * pow2 (?e - 52)"
      by (simp only: round_even_int)
    also have "\<dots> = ?x" by simp
    finally show ?thesis by blast
  qed
  then obtain k where "of_int ?m * pow2 (?e - 52) = real_of_int k" by blast
  then show ?thesis
    using False unfolding fl_def Let_def by auto
qed


lemma fl_half: "fl (1 / 2) = Num (1 / 2)"
  by (subst fl_eval [where e = "- 1"]) (simp_all add: round_even_def pow2_eval)

lemma fl_sentinel: "fl 9223372036854771712 = Num 9223372036854771712"
  by (subst fl_eval [where e = 62]) (simp_all add: round_even_def pow2_eval)

section \<open>Properties of the detector and frame conditions of the samplers\<close>

lemma check_markers_fields [simp]:
  "cgroupVersion (check_markers e ci) = cgroupVersion ci"
  "memoryLimit (check_markers e ci) = memoryLimit ci"
  "cpuLimit (check_markers e ci) = cpuLimit ci"
  "isContainerized ci \<Longrightarrow> isContainerized (check_markers e ci)"
  by (simp_all add: check_markers_def)

lemma set_cpu_limit_fields [simp]:
  "cgroupVersion (set_cpu_limit q p ci) = cgroupVersion ci"
  "memoryLimit (set_cpu_limit q p ci) = memoryLimit ci"
  "isContainerized ci \<Longrightarrow> isContainerized (set_cpu_limit q p ci)"
  by (simp_all add: set_cpu_limit_def)

lemma unconfined_fields [simp]:
  "cgroupVersion unconfined = None" "memoryLimit unconfined = None"
  "cpuLimit unconfined = None" "\<not> isContainerized unconfined"
  by (simp_all add: unconfined_def)

lemma v2_cpu_fields [simp]:
  "cgroupVersion (v2_cpu e ci) = cgroupVersion ci"
  "memoryLimit (v2_cpu e ci) = memoryLimit ci"
  "isContainerized ci \<Longrightarrow> isContainerized (v2_cpu e ci)"
  by (simp_all add: v2_cpu_def Let_def split: option.splits)

lemma v1_cpu_fields [simp]:
  "cgroupVersion (v1_cpu e ci) = cgroupVersion ci"
  "memoryLimit (v1_cpu e ci) = memoryLimit ci"
  "isContainerized ci \<Longrightarrow> isContainerized (v1_cpu e ci)"
  by (simp_all add: v1_cpu_def Let_def split: option.splits)

lemma v2_memory_limit:
  "memoryLimit (v2_memory e raw unconfined) =
     (if trim raw \<noteq> ''max'' then
        (case parseInt (trim raw) 10 of
           Num l \<Rightarrow> if 0 < l \<and> l < real (os_totalmem e) then Some l else None
         | _ \<Rightarrow> None)
      else None)"
  by (simp add: v2_memory_def Let_def split: jsnum.splits)

lemma v1_memory_limit:
  "memoryLimit (v1_memory e raw unconfined) =
     (case parseInt (trim raw) 10 of
        Num l \<Rightarrow> if 0 < l \<and> l < MAX_MEMORY_LIMIT \<and> l < real (os_totalmem e) then Some l else None
      | _ \<Rightarrow> None)"
  by (simp add: v1_memory_def split: jsnum.splits)

lemma v2_memory_inv:
  "(cgroupVersion (v2_memory e raw unconfined) = None) = (memoryLimit (v2_memory e raw unconfined) = None)"
  "memoryLimit (v2_memory e raw unconfined) = Some l \<Longrightarrow> isContainerized (v2_memory e raw unconfined) \<and> cgroupVersion (v2_memory e raw unconfined) = Some 2"
  by (auto simp add: v2_memory_def Let_def split: jsnum.splits if_splits)

lemma v1_memory_inv:
  "(cgroupVersion (v1_memory e raw unconfined) = None) = (memoryLimit (v1_memory e raw unconfined) = None)"
  "memoryLimit (v1_memory e raw unconfined) = Some l \<Longrightarrow> isContainerized (v1_memory e raw unconfined) \<and> cgroupVersion (v1_memory e raw unconfined) = Some 1"
  by (auto simp add: v1_memory_def Let_def split: jsnum.splits if_splits)

lemma detect_linux_version_iff:
  "cgroupVersion (detect_linux e) = None \<longleftrightarrow> memoryLimit (detect_linux e) = None"
  by (simp add: detect_linux_def v2_memory_inv v1_memory_inv split: option.splits)

lemma detect_linux_limit_range:
  "memoryLimit (detect_linux e) = Some l \<Longrightarrow> 0 < l \<and> l < real (os_totalmem e)"
  by (simp add: detect_linux_def v2_memory_limit v1_memory_limit
      split: option.splits if_splits jsnum.splits)

lemma detect_linux_limit_containerized:
  "memoryLimit (detect_linux e) = Some l \<Longrightarrow> isContainerized (detect_linux e)"
  by (auto simp add: detect_linux_def v2_memory_inv v1_memory_inv split: option.splits if_splits)

lemma detect_linux_v2:
  assumes "files e CGROUP_V2_memoryMax = Content raw"
  shows "detect_linux e = v2_cpu e (v2_memory e raw unconfined)"
  using assms
  by (simp add: detect_linux_def existsSync_def readFileSync_def)

lemma detect_linux_v1:
  assumes "files e CGROUP_V2_memoryMax = Absent" "files e CGROUP_V1_memoryLimit = Content raw"
  shows "detect_linux e = v1_cpu e (v1_memory e raw unconfined)"
  using assms
  by (simp add: detect_linux_def existsSync_def readFileSync_def)

lemma detect_frame [simp]:
  "metricsCache (snd (detectContainerEnvironment s e)) = metricsCache s"
  "settings (snd (detectContainerEnvironment s e)) = settings s"
  "lastCpuUsage (snd (detectContainerEnvironment s e)) = lastCpuUsage s"
  "lastCpuTime (snd (detectContainerEnvironment s e)) = lastCpuTime s"
  by (simp_all add: detectContainerEnvironment_def Let_def split: option.splits)

lemma getContainerMemory_frame [simp]:
  "metricsCache (snd (getContainerMemory s e)) = metricsCache s"
  "settings (snd (getContainerMemory s e)) = settings s"
  "lastCpuUsage (snd (getContainerMemory s e)) = lastCpuUsage s"
  "lastCpuTime (snd (getContainerMemory s e)) = lastCpuTime s"
  by (simp_all add: getContainerMemory_def Let_def split_beta split: option.splits)

lemma getSystemMemory_frame [simp]:
  "metricsCache (snd (getSystemMemory s e)) = metricsCache s"
  "settings (snd (getSystemMemory s e)) = settings s"
  by (simp_all add: getSystemMemory_def split: prod.splits option.splits)
    (metis getContainerMemory_frame(1) snd_conv, metis getContainerMemory_frame(2) snd_conv)

lemma getCpuPercent_frame [simp]:
  "metricsCache (snd (getCpuPercent s e)) = metricsCache s"
  "settings (snd (getCpuPercent s e)) = settings s"
  by (simp_all add: getCpuPercent_def Let_def)

lemma getCpuInfo_frame [simp]:
  "metricsCache (snd (getCpuInfo s e)) = metricsCache s"
  "settings (snd (getCpuInfo s e)) = settings s"
  by (simp_all add: getCpuInfo_def getContainerCpuLimit_def Let_def split_beta)

lemma getSystemCpuUsage_frame [simp]:
  "metricsCache (snd (getSystemCpuUsage s e)) = metricsCache s"
  "settings (snd (getSystemCpuUsage s e)) = settings s"
  by (simp_all add: getSystemCpuUsage_def Let_def)

lemma collect_try_frame [simp]:
  "metricsCache (snd (collect_try s e)) = metricsCache s"
  "settings (snd (collect_try s e)) = settings s"
  by (simp_all add: collect_try_def Let_def split_beta split: sum.splits)

lemma collect_try_timestamp:
  "fst (collect_try s e) = Inr m \<Longrightarrow> timestamp m = Date_now e"
  by (auto simp add: collect_try_def Let_def split_beta split: sum.splits)

lemma collect_try_result:
  "fst (collect_try s e) =
     (case process_memoryUsage e of
        Inl msg \<Rightarrow> Inl msg
      | Inr mu \<Rightarrow>
          (case os_uptime e of
             Inl msg \<Rightarrow> Inl msg
           | Inr up \<Rightarrow> Inr (projr (fst (collect_try s e)))))"
  by (simp add: collect_try_def Let_def split_beta split: sum.splits)

lemma collect_try_throws:
  assumes "process_memoryUsage e = Inl msg
           \<or> (\<exists>mu. process_memoryUsage e = Inr mu) \<and> os_uptime e = Inl msg"
  shows "fst (collect_try s e) = Inl msg"
  using assms by (subst collect_try_result) auto

lemma collect_try_returns:
  assumes "process_memoryUsage e = Inr mu" "os_uptime e = Inr up"
  shows "\<exists>m. fst (collect_try s e) = Inr m \<and> timestamp m = Date_now e"
proof -
  have "fst (collect_try s e) = Inr (projr (fst (collect_try s e)))"
    using assms by (subst collect_try_result) simp
  then show ?thesis using collect_try_timestamp by blast
qed

lemmas path_defs = CGROUP_V2_memoryMax_def CGROUP_V2_memoryCurrent_def CGROUP_V2_cpuMax_def
  CGROUP_V1_memoryLimit_def CGROUP_V1_memoryUsage_def CGROUP_V1_cpuQuota_def
  CGROUP_V1_cpuPeriod_def

lemmas js_string_defs = trim_def parseInt_def digit_val_def strip_leading.simps ws_len_def
  WhiteSpace_def

lemma detect_fresh:
  "containerInfo s = None \<Longrightarrow>
     fst (detectContainerEnvironment s e)
       = (if os_platform e \<noteq> ''linux'' then unconfined else detect_linux e)"
  by (simp add: detectContainerEnvironment_def Let_def)

lemma fresh_state_simps:
  "containerInfo fresh_state = None"
  "settings fresh_state = initial_settings"
  "lastCpuUsage fresh_state = \<lparr>user = 0, system = 0\<rparr>"
  "lastCpuTime fresh_state = 0"
  "lastCpuTimes fresh_state = None"
  "eventLoopLag fresh_state = 0"
  "metricsCache fresh_state = \<lparr>data = None, cache_timestamp = 0\<rparr>"
  by (simp_all add: fresh_state_def initial_state_def)

lemma linux_host_simps:
  "Date_now linux_host = 10000"
  "os_platform linux_host = ''linux''"
  "os_totalmem linux_host = 17179869184"
  "os_freemem linux_host = 8589934592"
  "os_cpus linux_host = []"
  "os_cpus' linux_host = []"
  "os_uptime linux_host = Inr 3600"
  "files linux_host = (\<lambda>p. Absent)"
  "MemAvailable_kB linux_host = None"
  "exec_vm_stat linux_host = None"
  "fs_statfs linux_host = None"
  "process_memoryUsage linux_host =
     Inr \<lparr>rss = 104857600, heapTotal = 83886080, heapUsed = 62914560,
          external = 5242880, arrayBuffers = Some 2097152\<rparr>"
  "process_cpuUsage linux_host = \<lparr>user = 0, system = 0\<rparr>"
  "process_hrtime linux_host = 0"
  "process_cpuUsage' linux_host = \<lparr>user = 0, system = 0\<rparr>"
  "process_hrtime' linux_host = 0"
  by (simp_all add: linux_host_def)

lemma files_of_simps:
  "files_of [] p = Absent"
  "files_of ((k, c) # kvs) p = (if p = k then Content c else files_of kvs p)"
  by (simp_all add: files_of_def)


section \<open>Container detection: limits and cgroup version\<close>

text \<open>
  Claim C3, as stated, fails: with \<open>memory.max\<close> holding \<open>max\<close> and \<open>cpu.max\<close> holding
  \<open>50000 100000\<close>, the CPU stage records the limit of half a core, while the version is
  recorded only together with a memory limit and stays \<open>null\<close>.
\<close>

theorem cgroupVersion_none_cpuLimit_counterexample:
  "cgroupVersion (fst (detectContainerEnvironment fresh_state
      (linux_host\<lparr>files := files_of [(CGROUP_V2_memoryMax, ''max\<newline>''),
                                      (CGROUP_V2_cpuMax, ''50000 100000\<newline>'')]\<rparr>))) = None
   \<and> cpuLimit (fst (detectContainerEnvironment fresh_state
      (linux_host\<lparr>files := files_of [(CGROUP_V2_memoryMax, ''max\<newline>''),
                                      (CGROUP_V2_cpuMax, ''50000 100000\<newline>'')]\<rparr>)))
       = Some (Num (1 / 2))"
  by (simp add: detect_fresh fresh_state_simps linux_host_simps files_of_simps path_defs
      detect_linux_def existsSync_def readFileSync_def v2_memory_def v2_cpu_def
      js_string_defs set_cpu_limit_def check_markers_def unconfined_def fl_numeral fl_half)

text \<open>
  Claim C3, amended: for every record that \<open>detectContainerEnvironment\<close> produces, if
  \<open>cgroupVersion\<close> is none then \<open>memoryLimit\<close> is absent.
\<close>

theorem cgroupVersion_none_no_memoryLimit:
  "containerInfo s = None \<Longrightarrow>
   cgroupVersion (fst (detectContainerEnvironment s e)) = None \<Longrightarrow>
   memoryLimit (fst (detectContainerEnvironment s e)) = None"
  by (simp add: detect_fresh detect_linux_version_iff split: if_splits)

theorem cgroupVersion_none_no_memoryLimit_witness:
  "containerInfo fresh_state = None
   \<and> cgroupVersion (fst (detectContainerEnvironment fresh_state
        (linux_host\<lparr>files := files_of [(CGROUP_V1_memoryLimit, ''9223372036854771712''),
                                        (''/.dockerenv'', [])]\<rparr>))) = None
   \<and> memoryLimit (fst (detectContainerEnvironment fresh_state
        (linux_host\<lparr>files := files_of [(CGROUP_V1_memoryLimit, ''9223372036854771712''),
                                        (''/.dockerenv'', [])]\<rparr>))) = None"
proof -
  let ?e = "linux_host\<lparr>files := files_of [(CGROUP_V1_memoryLimit, ''9223372036854771712''),
                                            (''/.dockerenv'', [])]\<rparr>"
  have v: "cgroupVersion (fst (detectContainerEnvironment fresh_state ?e)) = None"
    by (simp add: detect_fresh fresh_state_simps linux_host_simps files_of_simps path_defs
        detect_linux_def existsSync_def readFileSync_def v1_memory_def js_string_defs
        MAX_MEMORY_LIMIT_def fl_sentinel)
  from cgroupVersion_none_no_memoryLimit [OF fresh_state_simps(1) v] v
  show ?thesis by (simp add: fresh_state_simps)
qed

text \<open>
  Claim C7: the detector records a memory limit only if the parsed value is strictly
  between zero and the total memory of the host. On Linux, a \<open>memory.max\<close> of \<open>max\<close>
  gives no memory limit and no cgroup version (and the record of an unconfined process
  when there is neither a \<open>cpu.max\<close> file nor a container marker); a \<open>memory.max\<close> that
  parses to a value \<open>l\<close> in that range gives \<open>isContainerized\<close> and \<open>memoryLimit = l\<close>;
  a cgroup v1 limit that parses to a value at or above \<open>MAX_MEMORY_LIMIT\<close>, or to
  \<open>Infinity\<close>, gives no memory limit.
\<close>

theorem memory_limit_detection:
  assumes "containerInfo s = None"
  shows "(memoryLimit (fst (detectContainerEnvironment s e)) = Some l \<longrightarrow>
            0 < l \<and> l < real (os_totalmem e))
     \<and> (os_platform e = ''linux'' \<and> files e CGROUP_V2_memoryMax = Content raw
          \<and> trim raw = ''max'' \<longrightarrow>
            memoryLimit (fst (detectContainerEnvironment s e)) = None
          \<and> cgroupVersion (fst (detectContainerEnvironment s e)) = None
          \<and> (files e CGROUP_V2_cpuMax = Absent \<and> files e ''/.dockerenv'' = Absent
               \<and> files e ''/var/run/secrets/kubernetes.io'' = Absent \<longrightarrow>
                fst (detectContainerEnvironment s e) = unconfined))
     \<and> (os_platform e = ''linux'' \<and> files e CGROUP_V2_memoryMax = Content raw
          \<and> trim raw \<noteq> ''max'' \<and> parseInt (trim raw) 10 = Num l
          \<and> 0 < l \<and> l < real (os_totalmem e) \<longrightarrow>
            isContainerized (fst (detectContainerEnvironment s e))
          \<and> memoryLimit (fst (detectContainerEnvironment s e)) = Some l
          \<and> cgroupVersion (fst (detectContainerEnvironment s e)) = Some 2)
     \<and> (os_platform e = ''linux'' \<and> files e CGROUP_V2_memoryMax = Absent
          \<and> files e CGROUP_V1_memoryLimit = Content raw
          \<and> (parseInt (trim raw) 10 = Num l \<and> MAX_MEMORY_LIMIT \<le> l
               \<or> parseInt (trim raw) 10 = Infinity) \<longrightarrow>
            memoryLimit (fst (detectContainerEnvironment s e)) = None)"
proof (intro conjI impI)
  assume "memoryLimit (fst (detectContainerEnvironment s e)) = Some l"
  then have "memoryLimit (detect_linux e) = Some l"
    using assms by (simp add: detect_fresh split: if_splits)
  then have "0 < l \<and> l < real (os_totalmem e)" by (rule detect_linux_limit_range)
  then show "0 < l" and "l < real (os_totalmem e)" by simp_all
next
  assume h: "os_platform e = ''linux'' \<and> files e CGROUP_V2_memoryMax = Content raw
               \<and> trim raw = ''max''"
  then have d: "fst (detectContainerEnvironment s e) = v2_cpu e (v2_memory e raw unconfined)"
    using assms by (simp add: detect_fresh detect_linux_v2)
  have m: "v2_memory e raw unconfined = unconfined"
    using h by (simp add: v2_memory_def)
  show "memoryLimit (fst (detectContainerEnvironment s e)) = None"
    and "cgroupVersion (fst (detectContainerEnvironment s e)) = None"
    by (simp_all add: d m)
  assume "files e CGROUP_V2_cpuMax = Absent \<and> files e ''/.dockerenv'' = Absent
               \<and> files e ''/var/run/secrets/kubernetes.io'' = Absent"
  then show "fst (detectContainerEnvironment s e) = unconfined"
    by (simp add: d m v2_cpu_def existsSync_def check_markers_def)
next
  assume h: "os_platform e = ''linux'' \<and> files e CGROUP_V2_memoryMax = Content raw
          \<and> trim raw \<noteq> ''max'' \<and> parseInt (trim raw) 10 = Num l
          \<and> 0 < l \<and> l < real (os_totalmem e)"
  then have d: "fst (detectContainerEnvironment s e) = v2_cpu e (v2_memory e raw unconfined)"
    using assms by (simp add: detect_fresh detect_linux_v2)
  have m: "memoryLimit (v2_memory e raw unconfined) = Some l"
    using h by (simp add: v2_memory_limit)
  show "memoryLimit (fst (detectContainerEnvironment s e)) = Some l"
    by (simp add: d m)
  show "isContainerized (fst (detectContainerEnvironment s e))"
    using v2_memory_inv(2) [OF m] by (simp add: d)
  show "cgroupVersion (fst (detectContainerEnvironment s e)) = Some 2"
    using v2_memory_inv(2) [OF m] by (simp add: d)
next
  assume h: "os_platform e = ''linux'' \<and> files e CGROUP_V2_memoryMax = Absent
          \<and> files e CGROUP_V1_memoryLimit = Content raw
          \<and> (parseInt (trim raw) 10 = Num l \<and> MAX_MEMORY_LIMIT \<le> l
               \<or> parseInt (trim raw) 10 = Infinity)"
  then have d: "fst (detectContainerEnvironment s e) = v1_cpu e (v1_memory e raw unconfined)"
    using assms by (simp add: detect_fresh detect_linux_v1)
  show "memoryLimit (fst (detectContainerEnvironment s e)) = None"
    using h by (auto simp add: d v1_memory_limit)
qed

theorem memory_limit_detection_witness:
  "containerInfo fresh_state = None
   \<and> os_totalmem linux_host = 16 * 1024 * 1024 * 1024
   \<and> fst (detectContainerEnvironment fresh_state
        (linux_host\<lparr>files := files_of [(CGROUP_V2_memoryMax, ''max\<newline>'')]\<rparr>)) = unconfined
   \<and> isContainerized (fst (detectContainerEnvironment fresh_state
        (linux_host\<lparr>files := files_of [(CGROUP_V2_memoryMax, ''1073741824\<newline>'')]\<rparr>)))
   \<and> memoryLimit (fst (detectContainerEnvironment fresh_state
        (linux_host\<lparr>files := files_of [(CGROUP_V2_memoryMax, ''1073741824\<newline>'')]\<rparr>)))
       = Some 1073741824
   \<and> (0::real) < 1073741824 \<and> 1073741824 < real (os_totalmem linux_host)
   \<and> memoryLimit (fst (detectContainerEnvironment fresh_state
        (linux_host\<lparr>files := files_of
            [(CGROUP_V1_memoryLimit, ''9223372036854771712\<newline>'')]\<rparr>))) = None"
proof -
  let ?max = "linux_host\<lparr>files := files_of [(CGROUP_V2_memoryMax, ''max\<newline>'')]\<rparr>"
  let ?gib = "linux_host\<lparr>files := files_of [(CGROUP_V2_memoryMax, ''1073741824\<newline>'')]\<rparr>"
  let ?v1 = "linux_host\<lparr>files := files_of
               [(CGROUP_V1_memoryLimit, ''9223372036854771712\<newline>'')]\<rparr>"
  note c = fresh_state_simps(1)
  have hmax: "os_platform ?max = ''linux''
      \<and> files ?max CGROUP_V2_memoryMax = Content ''max\<newline>'' \<and> trim ''max\<newline>'' = ''max''"
    by (simp add: linux_host_simps files_of_simps js_string_defs)
  have hmax': "files ?max CGROUP_V2_cpuMax = Absent \<and> files ?max ''/.dockerenv'' = Absent
      \<and> files ?max ''/var/run/secrets/kubernetes.io'' = Absent"
    by (simp add: files_of_simps path_defs)
  have hgib: "os_platform ?gib = ''linux''
      \<and> files ?gib CGROUP_V2_memoryMax = Content ''1073741824\<newline>''
      \<and> trim ''1073741824\<newline>'' \<noteq> ''max''
      \<and> parseInt (trim ''1073741824\<newline>'') 10 = Num 1073741824
      \<and> (0::real) < 1073741824 \<and> 1073741824 < real (os_totalmem ?gib)"
    by (simp add: linux_host_simps files_of_simps js_string_defs fl_numeral)
  have hv1: "os_platform ?v1 = ''linux'' \<and> files ?v1 CGROUP_V2_memoryMax = Absent
      \<and> files ?v1 CGROUP_V1_memoryLimit = Content ''9223372036854771712\<newline>''
      \<and> (parseInt (trim ''9223372036854771712\<newline>'') 10 = Num 9223372036854771712
           \<and> MAX_MEMORY_LIMIT \<le> 9223372036854771712
         \<or> parseInt (trim ''9223372036854771712\<newline>'') 10 = Infinity)"
    by (simp add: linux_host_simps files_of_simps path_defs js_string_defs
        MAX_MEMORY_LIMIT_def fl_sentinel)
  from memory_limit_detection [OF c, of ?max _ "''max\<newline>''"] hmax hmax'
  have 1: "fst (detectContainerEnvironment fresh_state ?max) = unconfined" by blast
  from memory_limit_detection [OF c, of ?gib 1073741824 "''1073741824\<newline>''"] hgib
  have 2: "isContainerized (fst (detectContainerEnvironment fresh_state ?gib))
      \<and> memoryLimit (fst (detectContainerEnvironment fresh_state ?gib)) = Some 1073741824"
    by blast
  from memory_limit_detection
         [OF c, of ?v1 9223372036854771712 "''9223372036854771712\<newline>''"] hv1
  have 3: "memoryLimit (fst (detectContainerEnvironment fresh_state ?v1)) = None" by blast
  from 1 2 3 hgib show ?thesis by (simp add: fresh_state_simps linux_host_simps)
qed

section \<open>Process CPU percentage\<close>

lemma getCpuPercent_stalled:
  "process_hrtime e \<le> lastCpuTime s \<Longrightarrow> getCpuPercent s e = (0, s)"
  by (simp add: getCpuPercent_def Let_def)

lemma getCpuPercent_running:
  assumes "lastCpuTime s < process_hrtime e"
  shows "getCpuPercent s e =
     (min (max ((real_of_int (user (process_cpuUsage e) - user (lastCpuUsage s)
                    + (system (process_cpuUsage e) - system (lastCpuUsage s))) / 1000)
                / (real_of_int (process_hrtime e - lastCpuTime s) / 1000000) * 100) 0) 100,
      s\<lparr>lastCpuUsage := process_cpuUsage' e, lastCpuTime := process_hrtime' e\<rparr>)"
proof -
  have "\<not> real_of_int (process_hrtime e - lastCpuTime s) / 1000000 \<le> 0"
    using assms by simp
  then show ?thesis
    unfolding getCpuPercent_def Let_def cpu_usage.select_convs by (simp only: if_False)
qed

text \<open>
  Claim C4, as stated, fails: a call that finds no elapsed time returns 0 before the two
  assignments, so the baseline keeps the old readings. Here the clock still reads 0, as
  at the baseline, while the process has used 2000 microseconds of CPU time since.
\<close>

theorem getCpuPercent_baseline_counterexample:
  "fst (getCpuPercent fresh_state
          (linux_host\<lparr>process_cpuUsage := \<lparr>user = 1500, system = 500\<rparr>,
                        process_cpuUsage' := \<lparr>user = 1500, system = 500\<rparr>\<rparr>)) = 0
   \<and> lastCpuUsage (snd (getCpuPercent fresh_state
          (linux_host\<lparr>process_cpuUsage := \<lparr>user = 1500, system = 500\<rparr>,
                        process_cpuUsage' := \<lparr>user = 1500, system = 500\<rparr>\<rparr>)))
       \<noteq> \<lparr>user = 1500, system = 500\<rparr>"
  by (simp add: getCpuPercent_stalled fresh_state_simps linux_host_simps)

text \<open>
  Claim C4, amended: every call to \<open>getCpuPercent\<close> that finds a positive elapsed time
  resets the baseline to the readings taken during the call (the second reading of the
  CPU time and of the clock); a call that finds a non-positive elapsed time returns 0 and
  leaves the whole state, the baseline included, as it was.
\<close>

theorem getCpuPercent_baseline:
  "(lastCpuTime s < process_hrtime e \<longrightarrow>
      lastCpuUsage (snd (getCpuPercent s e)) = process_cpuUsage' e
      \<and> lastCpuTime (snd (getCpuPercent s e)) = process_hrtime' e)
   \<and> (process_hrtime e \<le> lastCpuTime s \<longrightarrow> getCpuPercent s e = (0, s))"
  by (simp add: getCpuPercent_stalled getCpuPercent_running)

theorem getCpuPercent_baseline_witness:
  "lastCpuTime fresh_state < process_hrtime (linux_host\<lparr>process_hrtime := 2000000\<rparr>)
   \<and> lastCpuTime (snd (getCpuPercent fresh_state
        (linux_host\<lparr>process_hrtime := 2000000, process_hrtime' := 2000500\<rparr>))) = 2000500
   \<and> process_hrtime linux_host \<le> lastCpuTime fresh_state
   \<and> getCpuPercent fresh_state linux_host = (0, fresh_state)"
  using getCpuPercent_baseline
          [of fresh_state "linux_host\<lparr>process_hrtime := 2000000, process_hrtime' := 2000500\<rparr>"]
        getCpuPercent_baseline [of fresh_state linux_host]
  by (simp add: fresh_state_simps linux_host_simps)




section \<open>Disk usage\<close>

lemma fl_nat: "n \<le> 2 ^ 53 \<Longrightarrow> fl (real n) = Num (real n)"
  using fl_int [of "int n"] by simp

lemma js_mul_nat:
  "a * b \<le> 2 ^ 53 \<Longrightarrow> js_mul (Num (real a)) (Num (real b)) = Num (real (a * b))"
  using fl_nat [of "a * b"] by simp

lemma js_sub_nat:
  "b \<le> a \<Longrightarrow> a \<le> 2 ^ 53 \<Longrightarrow> js_sub (Num (real a)) (Num (real b)) = Num (real (a - b))"
  using fl_nat [of "a - b"] by (simp add: js_sub_def of_nat_diff)

lemma getDiskUsage_success:
  assumes "fs_statfs e = Some (None, Some st)"
  shows "getDiskUsage e =
     \<lparr>mount = (if os_platform e = ''win32'' then windows_root else ''/''),
      disk_total = js_mul (Num (real (blocks st))) (Num (real (bsize st))),
      disk_used = js_sub (js_mul (Num (real (blocks st))) (Num (real (bsize st))))
                    (js_mul (Num (real (bfree st))) (Num (real (bsize st)))),
      disk_free = Some (js_mul (Num (real (bavail st))) (Num (real (bsize st)))),
      disk_available = js_mul (Num (real (bavail st))) (Num (real (bsize st))),
      disk_usedPercent =
        (if js_lt (Num 0) (js_mul (Num (real (blocks st))) (Num (real (bsize st))))
         then percent1
                (js_div (js_sub (js_mul (Num (real (blocks st))) (Num (real (bsize st))))
                           (js_mul (Num (real (bfree st))) (Num (real (bsize st)))))
                   (js_mul (Num (real (blocks st))) (Num (real (bsize st)))))
         else Num 0)\<rparr>"
  unfolding getDiskUsage_def assms Let_def by simp

lemma getDiskUsage_fallback:
  assumes "fs_statfs e = None \<or> fs_statfs e = Some (Some err, stats)
           \<or> fs_statfs e = Some (err', None)"
  shows "getDiskUsage e = defaultDisk"
  using assms by (auto simp add: getDiskUsage_def Let_def split: option.splits)

text \<open>The roundings of two sample quotients: 0.5025, whose product with 1000 is the double
  just below 502.5, and 0.5026.\<close>

lemma percent1_tie:
  "percent1 (js_div (Num 8232960000) (Num 16384000000))
     = Num (3532510957718733 / 70368744177664)"
proof -
  have q: "js_div (Num 8232960000) (Num 16384000000)
             = Num (1131529406376837 / 2251799813685248)"
    by (simp, subst fl_eval [where e = "- 1"], simp_all add: round_even_def pow2_eval)
  have m: "js_mul (Num (1131529406376837 / 2251799813685248)) (Num 1000)
             = Num (8840073487319039 / 17592186044416)"
    by (simp, subst fl_eval [where e = 8], simp_all add: round_even_def pow2_eval)
  have r: "Math_round (Num (8840073487319039 / 17592186044416)) = Num 502"
    by simp
  have d: "js_div (Num 502) (Num 10) = Num (3532510957718733 / 70368744177664)"
    by (simp, subst fl_eval [where e = 5], simp_all add: round_even_def pow2_eval)
  show ?thesis by (simp only: percent1_def q m r d)
qed

lemma percent1_up:
  "percent1 (js_div (Num 2058649600) (Num 4096000000))
     = Num (3539547832136499 / 70368744177664)"
proof -
  have q: "js_div (Num 2058649600) (Num 4096000000)
             = Num (4527018345432823 / 9007199254740992)"
    by (simp, subst fl_eval [where e = "- 1"], simp_all add: round_even_def pow2_eval)
  have m: "js_mul (Num (4527018345432823 / 9007199254740992)) (Num 1000)
             = Num (4420916352961741 / 8796093022208)"
    by (simp, subst fl_eval [where e = 8], simp_all add: round_even_def pow2_eval)
  have r: "Math_round (Num (4420916352961741 / 8796093022208)) = Num 503"
    by simp
  have d: "js_div (Num 503) (Num 10) = Num (3539547832136499 / 70368744177664)"
    by (simp, subst fl_eval [where e = 5], simp_all add: round_even_def pow2_eval)
  show ?thesis by (simp only: percent1_def q m r d)
qed

text \<open>
  Claim C5, as stated, fails in its \<open>free\<close> field: on success the returned record has
  \<open>free: available\<close>, the blocks available to an unprivileged user times the block size,
  not the free blocks times the block size. With 500000 free and 400000 available blocks
  of 4096 bytes the returned \<open>free\<close> is 1638400000, not 2048000000.
\<close>

theorem getDiskUsage_free_counterexample:
  "disk_free (getDiskUsage (linux_host\<lparr>fs_statfs :=
       Some (None, Some \<lparr>blocks = 1000000, bsize = 4096, bfree = 500000,
                          bavail = 400000\<rparr>)\<rparr>)) = Some (Num 1638400000)
   \<and> js_mul (Num 500000) (Num 4096) = Num 2048000000"
  by (simp add: getDiskUsage_success fl_numeral)

text \<open>
  Claim C5, amended: \<open>getDiskUsage\<close> returns exactly
  \<open>{mount: "/", total: 0, used: 0, available: 0, usedPercent: 0}\<close> when \<open>fs.statfs\<close> is
  unavailable, when the query reports an error or when it delivers no statistics; on
  success it returns the mount point queried (\<open>/\<close>, or \<open>C:\\\<close> on Windows),
  \<open>total = blocks * bsize\<close>, \<open>available = bavail * bsize\<close>,
  \<open>used = total - bfree * bsize\<close>, \<open>usedPercent = Math.round(used / total * 1000) / 10\<close>
  with every operation rounded to a double, which is 0 unless \<open>total\<close> is positive, and a
  \<open>free\<close> field equal to \<open>available\<close>. While \<open>blocks * bsize\<close> is at most \<open>2^53\<close> and
  neither \<open>bfree\<close> nor \<open>bavail\<close> exceeds \<open>blocks\<close>, the three byte counts are the exact
  integers.
\<close>

theorem getDiskUsage_result:
  "(fs_statfs e = None \<or> fs_statfs e = Some (Some err, stats)
      \<or> fs_statfs e = Some (err', None) \<longrightarrow>
      getDiskUsage e = \<lparr>mount = ''/'', disk_total = Num 0, disk_used = Num 0,
                         disk_free = None, disk_available = Num 0,
                         disk_usedPercent = Num 0\<rparr>)
   \<and> (fs_statfs e = Some (None, Some st) \<longrightarrow>
      mount (getDiskUsage e) = (if os_platform e = ''win32'' then windows_root else ''/'')
      \<and> disk_total (getDiskUsage e) = js_mul (Num (real (blocks st))) (Num (real (bsize st)))
      \<and> disk_available (getDiskUsage e)
          = js_mul (Num (real (bavail st))) (Num (real (bsize st)))
      \<and> disk_free (getDiskUsage e) = Some (disk_available (getDiskUsage e))
      \<and> disk_used (getDiskUsage e)
          = js_sub (disk_total (getDiskUsage e))
              (js_mul (Num (real (bfree st))) (Num (real (bsize st))))
      \<and> disk_usedPercent (getDiskUsage e)
          = (if js_lt (Num 0) (disk_total (getDiskUsage e))
             then js_div
                    (Math_round
                       (js_mul (js_div (disk_used (getDiskUsage e))
                                  (disk_total (getDiskUsage e)))
                          (Num 1000)))
                    (Num 10)
             else Num 0)
      \<and> (blocks st * bsize st \<le> 2 ^ 53 \<and> bfree st \<le> blocks st \<and> bavail st \<le> blocks st \<longrightarrow>
           disk_total (getDiskUsage e) = Num (real (blocks st * bsize st))
           \<and> disk_available (getDiskUsage e) = Num (real (bavail st * bsize st))
           \<and> disk_used (getDiskUsage e)
               = Num (real (blocks st * bsize st - bfree st * bsize st))))"
proof (intro conjI impI)
  assume "fs_statfs e = None \<or> fs_statfs e = Some (Some err, stats)
            \<or> fs_statfs e = Some (err', None)"
  then have "getDiskUsage e = defaultDisk" by (rule getDiskUsage_fallback)
  then show "getDiskUsage e = \<lparr>mount = ''/'', disk_total = Num 0, disk_used = Num 0,
      disk_free = None, disk_available = Num 0, disk_usedPercent = Num 0\<rparr>"
    by (simp add: defaultDisk_def)
next
  assume h: "fs_statfs e = Some (None, Some st)"
  note r = getDiskUsage_success [OF h]
  show "mount (getDiskUsage e) = (if os_platform e = ''win32'' then windows_root else ''/'')"
    unfolding r by simp
  show t: "disk_total (getDiskUsage e) = js_mul (Num (real (blocks st))) (Num (real (bsize st)))"
    unfolding r by simp
  show a: "disk_available (getDiskUsage e)
          = js_mul (Num (real (bavail st))) (Num (real (bsize st)))"
    unfolding r by simp
  show "disk_free (getDiskUsage e) = Some (disk_available (getDiskUsage e))"
    unfolding r by simp
  show u: "disk_used (getDiskUsage e)
          = js_sub (disk_total (getDiskUsage e))
              (js_mul (Num (real (bfree st))) (Num (real (bsize st))))"
    unfolding r by simp
  show "disk_usedPercent (getDiskUsage e)
          = (if js_lt (Num 0) (disk_total (getDiskUsage e))
             then js_div
                    (Math_round
                       (js_mul (js_div (disk_used (getDiskUsage e))
                                  (disk_total (getDiskUsage e)))
                          (Num 1000)))
                    (Num 10)
             else Num 0)"
    unfolding r percent1_def by simp
  assume b: "blocks st * bsize st \<le> 2 ^ 53 \<and> bfree st \<le> blocks st \<and> bavail st \<le> blocks st"
  then have fb: "bfree st * bsize st \<le> blocks st * bsize st"
    and ab: "bavail st * bsize st \<le> blocks st * bsize st"
    by simp_all
  from b show t': "disk_total (getDiskUsage e) = Num (real (blocks st * bsize st))"
    unfolding t by (simp only: js_mul_nat)
  from b have le: "blocks st * bsize st \<le> 2 ^ 53" by (rule conjunct1)
  from ab le have ab': "bavail st * bsize st \<le> 2 ^ 53" by (rule order_trans)
  from fb le have fb': "bfree st * bsize st \<le> 2 ^ 53" by (rule order_trans)
  show "disk_available (getDiskUsage e) = Num (real (bavail st * bsize st))"
    unfolding a using ab' by (rule js_mul_nat)
  have f: "js_mul (Num (real (bfree st))) (Num (real (bsize st)))
          = Num (real (bfree st * bsize st))"
    using fb' by (rule js_mul_nat)
  show "disk_used (getDiskUsage e)
               = Num (real (blocks st * bsize st - bfree st * bsize st))"
    unfolding u t' f using fb le by (rule js_sub_nat)
qed

theorem getDiskUsage_result_witness:
  "fs_statfs (linux_host\<lparr>fs_statfs := Some (Some ''Permission denied'', None)\<rparr>)
     = Some (Some ''Permission denied'', None)
   \<and> getDiskUsage (linux_host\<lparr>fs_statfs := Some (Some ''Permission denied'', None)\<rparr>)
     = \<lparr>mount = ''/'', disk_total = Num 0, disk_used = Num 0, disk_free = None,
        disk_available = Num 0, disk_usedPercent = Num 0\<rparr>
   \<and> disk_total (getDiskUsage (linux_host\<lparr>fs_statfs :=
        Some (None, Some \<lparr>blocks = 4000000, bsize = 4096, bfree = 1990000,
                           bavail = 1800000\<rparr>)\<rparr>)) = Num 16384000000
   \<and> disk_available (getDiskUsage (linux_host\<lparr>fs_statfs :=
        Some (None, Some \<lparr>blocks = 4000000, bsize = 4096, bfree = 1990000,
                           bavail = 1800000\<rparr>)\<rparr>)) = Num 7372800000
   \<and> disk_used (getDiskUsage (linux_host\<lparr>fs_statfs :=
        Some (None, Some \<lparr>blocks = 4000000, bsize = 4096, bfree = 1990000,
                           bavail = 1800000\<rparr>)\<rparr>)) = Num 8232960000
   \<and> disk_usedPercent (getDiskUsage (linux_host\<lparr>fs_statfs :=
        Some (None, Some \<lparr>blocks = 4000000, bsize = 4096, bfree = 1990000,
                           bavail = 1800000\<rparr>)\<rparr>)) = js_div (Num 502) (Num 10)
   \<and> disk_usedPercent (getDiskUsage (linux_host\<lparr>fs_statfs :=
        Some (None, Some \<lparr>blocks = 1000000, bsize = 4096, bfree = 497400,
                           bavail = 400000\<rparr>)\<rparr>)) = js_div (Num 503) (Num 10)
   \<and> js_div (Num 502) (Num 10) = Num (3532510957718733 / 70368744177664)
   \<and> js_div (Num 503) (Num 10) = Num (3539547832136499 / 70368744177664)"
proof -
  let ?bad = "linux_host\<lparr>fs_statfs := Some (Some ''Permission denied'', None)\<rparr>"
  let ?st = "\<lparr>blocks = 4000000, bsize = 4096, bfree = 1990000, bavail = 1800000\<rparr>"
  let ?ok = "linux_host\<lparr>fs_statfs := Some (None, Some ?st)\<rparr>"
  let ?st' = "\<lparr>blocks = 1000000, bsize = 4096, bfree = 497400, bavail = 400000\<rparr>"
  let ?ok' = "linux_host\<lparr>fs_statfs := Some (None, Some ?st')\<rparr>"
  have b: "fs_statfs ?bad = Some (Some ''Permission denied'', None)" by simp
  have k: "fs_statfs ?ok = Some (None, Some ?st)" by simp
  have k': "fs_statfs ?ok' = Some (None, Some ?st')" by simp
  have d2: "js_div (Num 502) (Num 10) = Num (3532510957718733 / 70368744177664)"
    by (simp, subst fl_eval [where e = 5], simp_all add: round_even_def pow2_eval)
  have d3: "js_div (Num 503) (Num 10) = Num (3539547832136499 / 70368744177664)"
    by (simp, subst fl_eval [where e = 5], simp_all add: round_even_def pow2_eval)
  from getDiskUsage_result [of ?bad "''Permission denied''" None] b
  have 1: "getDiskUsage ?bad = \<lparr>mount = ''/'', disk_total = Num 0, disk_used = Num 0,
      disk_free = None, disk_available = Num 0, disk_usedPercent = Num 0\<rparr>" by blast
  from getDiskUsage_result [of ?ok _ _ _ ?st] k
  have t: "disk_total (getDiskUsage ?ok) = Num 16384000000"
    by (simp add: fl_numeral)
  from getDiskUsage_result [of ?ok _ _ _ ?st] k
  have a: "disk_available (getDiskUsage ?ok) = Num 7372800000"
    by (simp add: fl_numeral)
  from getDiskUsage_result [of ?ok _ _ _ ?st] k
  have "disk_used (getDiskUsage ?ok)
          = js_sub (disk_total (getDiskUsage ?ok))
              (js_mul (Num (real (bfree ?st))) (Num (real (bsize ?st))))"
    by blast
  then have u: "disk_used (getDiskUsage ?ok) = Num 8232960000"
    by (simp add: t js_sub_def fl_numeral)
  from getDiskUsage_result [of ?ok _ _ _ ?st] k
  have "disk_usedPercent (getDiskUsage ?ok)
          = (if js_lt (Num 0) (disk_total (getDiskUsage ?ok))
             then js_div
                    (Math_round
                       (js_mul (js_div (disk_used (getDiskUsage ?ok))
                                  (disk_total (getDiskUsage ?ok)))
                          (Num 1000)))
                    (Num 10)
             else Num 0)"
    by blast
  then have "disk_usedPercent (getDiskUsage ?ok)
      = percent1 (js_div (Num 8232960000) (Num 16384000000))"
    unfolding t u percent1_def by (simp only: js_lt.simps) simp
  then have p: "disk_usedPercent (getDiskUsage ?ok) = js_div (Num 502) (Num 10)"
    by (simp only: percent1_tie d2)
  from getDiskUsage_result [of ?ok' _ _ _ ?st'] k'
  have t': "disk_total (getDiskUsage ?ok') = Num 4096000000"
    by (simp add: fl_numeral)
  from getDiskUsage_result [of ?ok' _ _ _ ?st'] k'
  have "disk_used (getDiskUsage ?ok')
          = js_sub (disk_total (getDiskUsage ?ok'))
              (js_mul (Num (real (bfree ?st'))) (Num (real (bsize ?st'))))"
    by blast
  then have u': "disk_used (getDiskUsage ?ok') = Num 2058649600"
    by (simp add: t' js_sub_def fl_numeral)
  from getDiskUsage_result [of ?ok' _ _ _ ?st'] k'
  have "disk_usedPercent (getDiskUsage ?ok')
          = (if js_lt (Num 0) (disk_total (getDiskUsage ?ok'))
             then js_div
                    (Math_round
                       (js_mul (js_div (disk_used (getDiskUsage ?ok'))
                                  (disk_total (getDiskUsage ?ok')))
                          (Num 1000)))
                    (Num 10)
             else Num 0)"
    by blast
  then have "disk_usedPercent (getDiskUsage ?ok')
      = percent1 (js_div (Num 2058649600) (Num 4096000000))"
    unfolding t' u' percent1_def by (simp only: js_lt.simps) simp
  then have p': "disk_usedPercent (getDiskUsage ?ok') = js_div (Num 503) (Num 10)"
    by (simp only: percent1_up d3)
  from 1 b t a u p p' d2 d3 show ?thesis by blast
qed


section \<open>Memory blocks\<close>

lemma container_block_fields:
  "total (container_block l u) = l"
  "used (container_block l u) = u"
  "free (container_block l u) = Math_max0 (js_sub (Num l) u)"
  "available (container_block l u) = Math_max0 (js_sub (Num l) u)"
  "usedPercent (container_block l u) = percent1 (js_div u (Num l))"
  by (simp_all add: container_block_def)

lemma host_block_fields:
  "total (host_block e) = real (os_totalmem e)"
  "used (host_block e) = Math_max0 (js_sub (Num (real (os_totalmem e))) (host_freeMem e))"
  "free (host_block e) = host_freeMem e"
  "available (host_block e) = host_freeMem e"
  "usedPercent (host_block e)
     = percent1 (js_div (used (host_block e)) (Num (total (host_block e))))"
  by (simp_all add: host_block_def Let_def)

lemma getContainerMemory_Some:
  assumes "fst (getContainerMemory s e) = Some b"
  shows "\<exists>limit usage.
           memoryLimit (fst (detectContainerEnvironment s e)) = Some limit
           \<and> read_usage (fst (detectContainerEnvironment s e)) e = Some usage
           \<and> b = container_block limit usage"
  using assms
  by (auto simp add: getContainerMemory_def Let_def split_beta
      split: option.splits if_splits)

lemma getSystemMemory_fst:
  "fst (getSystemMemory s e) =
     (case fst (getContainerMemory s e) of Some b \<Rightarrow> b | None \<Rightarrow> host_block e)"
  by (simp add: getSystemMemory_def split: prod.splits option.splits)

lemma getSystemMemory_snd:
  "snd (getSystemMemory s e) = snd (getContainerMemory s e)"
  by (simp add: getSystemMemory_def split: prod.splits option.splits)

lemma detect_cached:
  "containerInfo s = Some ci \<Longrightarrow> detectContainerEnvironment s e = (ci, s)"
  by (simp add: detectContainerEnvironment_def)

lemma collect_try_memory:
  "fst (collect_try s e) = Inr m \<Longrightarrow> memory (metrics_system m) = fst (getSystemMemory s e)"
  by (auto simp add: collect_try_def Let_def split_beta split: sum.splits)

text \<open>
  Claim C6: every memory block of the samplers is to have \<open>usedPercent\<close> in \<open>[0, 100]\<close>.
  The container path does not keep that range: the limit is the one detected at the first
  call, the usage is read at every call, and the block clamps \<open>free\<close> and \<open>available\<close> but
  not their quotient. Here the plugin starts with \<open>memory.max\<close> at 1 GiB; after the limit
  has been raised to 4 GiB the container uses 2 GiB, and the block that \<open>getSystemMemory\<close>
  returns has the total 1 GiB, 2 GiB used, nothing free, and 200 percent used.
\<close>

theorem container_usedPercent_exceeds_100:
  "total (fst (getSystemMemory
      (snd (getSystemMemory fresh_state
         (linux_host\<lparr>files := files_of [(CGROUP_V2_memoryMax, ''1073741824\<newline>''),
                                         (CGROUP_V2_memoryCurrent, ''536870912\<newline>'')]\<rparr>)))
      (linux_host\<lparr>files := files_of [(CGROUP_V2_memoryMax, ''4294967296\<newline>''),
                                      (CGROUP_V2_memoryCurrent, ''2147483648\<newline>'')]\<rparr>)))
     = 1073741824
   \<and> used (fst (getSystemMemory
      (snd (getSystemMemory fresh_state
         (linux_host\<lparr>files := files_of [(CGROUP_V2_memoryMax, ''1073741824\<newline>''),
                                         (CGROUP_V2_memoryCurrent, ''536870912\<newline>'')]\<rparr>)))
      (linux_host\<lparr>files := files_of [(CGROUP_V2_memoryMax, ''4294967296\<newline>''),
                                      (CGROUP_V2_memoryCurrent, ''2147483648\<newline>'')]\<rparr>)))
     = Num 2147483648
   \<and> free (fst (getSystemMemory
      (snd (getSystemMemory fresh_state
         (linux_host\<lparr>files := files_of [(CGROUP_V2_memoryMax, ''1073741824\<newline>''),
                                         (CGROUP_V2_memoryCurrent, ''536870912\<newline>'')]\<rparr>)))
      (linux_host\<lparr>files := files_of [(CGROUP_V2_memoryMax, ''4294967296\<newline>''),
                                      (CGROUP_V2_memoryCurrent, ''2147483648\<newline>'')]\<rparr>)))
     = Num 0
   \<and> usedPercent (fst (getSystemMemory
      (snd (getSystemMemory fresh_state
         (linux_host\<lparr>files := files_of [(CGROUP_V2_memoryMax, ''1073741824\<newline>''),
                                         (CGROUP_V2_memoryCurrent, ''536870912\<newline>'')]\<rparr>)))
      (linux_host\<lparr>files := files_of [(CGROUP_V2_memoryMax, ''4294967296\<newline>''),
                                      (CGROUP_V2_memoryCurrent, ''2147483648\<newline>'')]\<rparr>)))
     = Num 200"
proof -
  let ?e1 = "linux_host\<lparr>files := files_of [(CGROUP_V2_memoryMax, ''1073741824\<newline>''),
                                             (CGROUP_V2_memoryCurrent, ''536870912\<newline>'')]\<rparr>"
  let ?e2 = "linux_host\<lparr>files := files_of [(CGROUP_V2_memoryMax, ''4294967296\<newline>''),
                                             (CGROUP_V2_memoryCurrent, ''2147483648\<newline>'')]\<rparr>"
  let ?ci = "\<lparr>isContainerized = True, cgroupVersion = Some 2,
              memoryLimit = Some 1073741824, cpuLimit = None\<rparr>"
  have d: "detect_linux ?e1 = ?ci"
    by (simp add: linux_host_simps files_of_simps path_defs detect_linux_def existsSync_def
        readFileSync_def v2_memory_def v2_cpu_def js_string_defs check_markers_def
        unconfined_def fl_numeral)
  have "detectContainerEnvironment fresh_state ?e1
          = (?ci, fresh_state\<lparr>containerInfo := Some ?ci\<rparr>)"
    by (simp add: detectContainerEnvironment_def Let_def fresh_state_simps linux_host_simps d)
  then have "snd (getContainerMemory fresh_state ?e1) = fresh_state\<lparr>containerInfo := Some ?ci\<rparr>"
    by (simp add: getContainerMemory_def Let_def read_usage_def files_of_simps path_defs
        existsSync_def readFileSync_def)
  then have "containerInfo (snd (getSystemMemory fresh_state ?e1)) = Some ?ci"
    by (simp add: getSystemMemory_snd)
  then have c: "detectContainerEnvironment (snd (getSystemMemory fresh_state ?e1)) ?e2
          = (?ci, snd (getSystemMemory fresh_state ?e1))"
    by (rule detect_cached)
  have u: "read_usage ?ci ?e2 = Some (Num 2147483648)"
    by (simp add: read_usage_def files_of_simps path_defs existsSync_def readFileSync_def
        js_string_defs fl_numeral)
  have b: "fst (getContainerMemory (snd (getSystemMemory fresh_state ?e1)) ?e2)
          = Some (container_block 1073741824 (Num 2147483648))"
    unfolding getContainerMemory_def c by (simp add: u)
  have "js_sub (Num 1073741824) (Num 2147483648) = Num (- 1073741824)"
    by (simp add: js_sub_def fl_numeral)
  then have f: "free (container_block 1073741824 (Num 2147483648)) = Num 0"
    by (simp add: container_block_fields)
  have p: "usedPercent (container_block 1073741824 (Num 2147483648)) = Num 200"
    by (simp add: container_block_fields percent1_def fl_numeral)
  from b f p show ?thesis
    by (simp add: getSystemMemory_fst container_block_fields)
qed

text \<open>
  Claim C10: every memory block that \<open>getSystemMemory\<close> returns, and so every block in
  a fresh snapshot, has \<open>free\<close> equal to \<open>available\<close>. On the host path both are the
  free memory that \<open>host_freeMem\<close> determines (\<open>os.freemem()\<close>, the \<open>MemAvailable\<close> value
  on Linux, the page counts of \<open>vm_stat\<close> on Darwin); a block of \<open>getContainerMemory\<close> has
  the detected memory limit as its total and the usage read from the cgroup as its used
  memory, and both \<open>free\<close> and \<open>available\<close> are \<open>max(0, limit - currentUsage)\<close> of these
  two.
\<close>

theorem memory_free_is_available:
  "free (fst (getSystemMemory s e)) = available (fst (getSystemMemory s e))
   \<and> (fst (getContainerMemory s e) = None \<longrightarrow>
        free (fst (getSystemMemory s e)) = host_freeMem e
        \<and> available (fst (getSystemMemory s e)) = host_freeMem e)
   \<and> (fst (getContainerMemory s e) = Some b \<longrightarrow>
        fst (getSystemMemory s e) = b
        \<and> (\<exists>limit usage.
              memoryLimit (fst (detectContainerEnvironment s e)) = Some limit
              \<and> read_usage (fst (detectContainerEnvironment s e)) e = Some usage
              \<and> total b = limit \<and> used b = usage
              \<and> free b = Math_max0 (js_sub (Num limit) usage)
              \<and> available b = Math_max0 (js_sub (Num limit) usage)))
   \<and> (fst (collect_try s e) = Inr m \<longrightarrow>
        memory (metrics_system m) = fst (getSystemMemory s e)
        \<and> free (memory (metrics_system m)) = available (memory (metrics_system m)))"
proof -
  have container: "\<exists>limit usage.
              memoryLimit (fst (detectContainerEnvironment s e)) = Some limit
              \<and> read_usage (fst (detectContainerEnvironment s e)) e = Some usage
              \<and> total b = limit \<and> used b = usage
              \<and> free b = Math_max0 (js_sub (Num limit) usage)
              \<and> available b = Math_max0 (js_sub (Num limit) usage)"
    if "fst (getContainerMemory s e) = Some b" for b
  proof -
    from that obtain l u where
      "memoryLimit (fst (detectContainerEnvironment s e)) = Some l"
      "read_usage (fst (detectContainerEnvironment s e)) e = Some u"
      "b = container_block l u"
      using getContainerMemory_Some by blast
    then show ?thesis by (simp add: container_block_fields)
  qed
  have same: "fst (getSystemMemory s e) = b" if "fst (getContainerMemory s e) = Some b" for b
    using that by (simp add: getSystemMemory_fst)
  have eq: "free (fst (getSystemMemory s e)) = available (fst (getSystemMemory s e))"
  proof (cases "fst (getContainerMemory s e)")
    case None
    then show ?thesis by (simp add: getSystemMemory_fst host_block_fields)
  next
    case (Some c)
    from container [OF Some] same [OF Some] show ?thesis by auto
  qed
  have host: "free (fst (getSystemMemory s e)) = host_freeMem e
      \<and> available (fst (getSystemMemory s e)) = host_freeMem e"
    if "fst (getContainerMemory s e) = None"
    using that by (simp add: getSystemMemory_fst host_block_fields)
  have snap: "memory (metrics_system m) = fst (getSystemMemory s e)
      \<and> free (memory (metrics_system m)) = available (memory (metrics_system m))"
    if "fst (collect_try s e) = Inr m"
    using collect_try_memory [OF that] eq by simp
  from eq container same host snap show ?thesis by blast
qed

theorem memory_free_is_available_witness:
  "fst (getContainerMemory fresh_state linux_host) = None
   \<and> free (fst (getSystemMemory fresh_state linux_host)) = Num 8589934592
   \<and> available (fst (getSystemMemory fresh_state linux_host)) = Num 8589934592
   \<and> free (fst (getSystemMemory fresh_state
        (linux_host\<lparr>MemAvailable_kB := Some 4194304\<rparr>))) = Num 4294967296
   \<and> available (fst (getSystemMemory fresh_state
        (linux_host\<lparr>MemAvailable_kB := Some 4194304\<rparr>))) = Num 4294967296
   \<and> free (fst (getSystemMemory fresh_state
        (linux_host\<lparr>os_platform := ''darwin'',
           exec_vm_stat := Some \<lparr>pageSize = Some 16384, freePages = Some 100000,
                                  inactivePages = Some 50000,
                                  speculativePages = Some 10000\<rparr>\<rparr>))) = Num 2621440000
   \<and> available (fst (getSystemMemory fresh_state
        (linux_host\<lparr>os_platform := ''darwin'',
           exec_vm_stat := Some \<lparr>pageSize = Some 16384, freePages = Some 100000,
                                  inactivePages = Some 50000,
                                  speculativePages = Some 10000\<rparr>\<rparr>))) = Num 2621440000
   \<and> map_option total (fst (getContainerMemory fresh_state
        (linux_host\<lparr>files := files_of [(CGROUP_V2_memoryMax, ''1073741824\<newline>''),
                                        (CGROUP_V2_memoryCurrent, ''268435456\<newline>'')]\<rparr>)))
       = Some 1073741824
   \<and> map_option used (fst (getContainerMemory fresh_state
        (linux_host\<lparr>files := files_of [(CGROUP_V2_memoryMax, ''1073741824\<newline>''),
                                        (CGROUP_V2_memoryCurrent, ''268435456\<newline>'')]\<rparr>)))
       = Some (Num 268435456)
   \<and> map_option free (fst (getContainerMemory fresh_state
        (linux_host\<lparr>files := files_of [(CGROUP_V2_memoryMax, ''1073741824\<newline>''),
                                        (CGROUP_V2_memoryCurrent, ''268435456\<newline>'')]\<rparr>)))
       = Some (Num 805306368)
   \<and> map_option available (fst (getContainerMemory fresh_state
        (linux_host\<lparr>files := files_of [(CGROUP_V2_memoryMax, ''1073741824\<newline>''),
                                        (CGROUP_V2_memoryCurrent, ''268435456\<newline>'')]\<rparr>)))
       = Some (Num 805306368)
   \<and> free (fst (getSystemMemory fresh_state
        (linux_host\<lparr>files := files_of [(CGROUP_V2_memoryMax, ''1073741824\<newline>''),
                                        (CGROUP_V2_memoryCurrent, ''268435456\<newline>'')]\<rparr>)))
       = Num 805306368
   \<and> map_option free (fst (getContainerMemory fresh_state
        (linux_host\<lparr>files := files_of [(CGROUP_V1_memoryLimit, ''1000000''),
                                        (CGROUP_V1_memoryUsage, ''1200000'')]\<rparr>)))
       = Some (Num 0)
   \<and> map_option available (fst (getContainerMemory fresh_state
        (linux_host\<lparr>files := files_of [(CGROUP_V1_memoryLimit, ''1000000''),
                                        (CGROUP_V1_memoryUsage, ''1200000'')]\<rparr>)))
       = Some (Num 0)
   \<and> (case fst (collect_try fresh_state linux_host) of
         Inl msg \<Rightarrow> False
       | Inr m \<Rightarrow> free (memory (metrics_system m)) = Num 8589934592
                  \<and> available (memory (metrics_system m)) = Num 8589934592)"
proof -
  let ?ma = "linux_host\<lparr>MemAvailable_kB := Some 4194304\<rparr>"
  let ?dw = "linux_host\<lparr>os_platform := ''darwin'',
           exec_vm_stat := Some \<lparr>pageSize = Some 16384, freePages = Some 100000,
                                  inactivePages = Some 50000,
                                  speculativePages = Some 10000\<rparr>\<rparr>"
  let ?e2 = "linux_host\<lparr>files := files_of [(CGROUP_V2_memoryMax, ''1073741824\<newline>''),
                                        (CGROUP_V2_memoryCurrent, ''268435456\<newline>'')]\<rparr>"
  let ?e1 = "linux_host\<lparr>files := files_of [(CGROUP_V1_memoryLimit, ''1000000''),
                                            (CGROUP_V1_memoryUsage, ''1200000'')]\<rparr>"
  let ?c2 = "\<lparr>isContainerized = True, cgroupVersion = Some 2,
              memoryLimit = Some 1073741824, cpuLimit = None\<rparr>"
  let ?c1 = "\<lparr>isContainerized = True, cgroupVersion = Some 1,
              memoryLimit = Some 1000000, cpuLimit = None\<rparr>"
  have dl: "detect_linux linux_host = unconfined"
    by (simp add: linux_host_simps detect_linux_def existsSync_def check_markers_def
        unconfined_def)
  then have n: "fst (getContainerMemory fresh_state linux_host) = None"
    by (simp add: getContainerMemory_def detectContainerEnvironment_def Let_def
        fresh_state_simps linux_host_simps)
  have "detect_linux ?ma = unconfined"
    by (simp add: linux_host_simps detect_linux_def existsSync_def check_markers_def
        unconfined_def)
  then have nma: "fst (getContainerMemory fresh_state ?ma) = None"
    by (simp add: getContainerMemory_def detectContainerEnvironment_def Let_def
        fresh_state_simps linux_host_simps)
  have ndw: "fst (getContainerMemory fresh_state ?dw) = None"
    by (simp add: getContainerMemory_def detectContainerEnvironment_def Let_def
        fresh_state_simps)
  have f: "host_freeMem linux_host = Num 8589934592"
    by (simp add: host_freeMem_def linux_host_simps)
  have fma: "host_freeMem ?ma = Num 4294967296"
    by (simp add: host_freeMem_def linux_host_simps fl_numeral)
  have fdw: "host_freeMem ?dw = Num 2621440000"
    by (simp add: host_freeMem_def captured_def fl_numeral)
  have d2: "detect_linux ?e2 = ?c2"
    by (simp add: linux_host_simps files_of_simps path_defs detect_linux_def existsSync_def
        readFileSync_def v2_memory_def v2_cpu_def js_string_defs check_markers_def
        unconfined_def fl_numeral)
  have i2: "detectContainerEnvironment fresh_state ?e2
          = (?c2, fresh_state\<lparr>containerInfo := Some ?c2\<rparr>)"
    by (simp add: detectContainerEnvironment_def Let_def fresh_state_simps linux_host_simps d2)
  have u2: "read_usage ?c2 ?e2 = Some (Num 268435456)"
    by (simp add: read_usage_def files_of_simps path_defs existsSync_def readFileSync_def
        js_string_defs fl_numeral)
  have c2: "fst (getContainerMemory fresh_state ?e2)
      = Some (container_block 1073741824 (Num 268435456))"
    unfolding getContainerMemory_def i2 by (simp add: u2)
  have d1: "detect_linux ?e1 = ?c1"
    by (simp add: linux_host_simps files_of_simps path_defs detect_linux_def existsSync_def
        readFileSync_def v1_memory_def v1_cpu_def js_string_defs check_markers_def
        unconfined_def MAX_MEMORY_LIMIT_def fl_numeral)
  have i1: "detectContainerEnvironment fresh_state ?e1
          = (?c1, fresh_state\<lparr>containerInfo := Some ?c1\<rparr>)"
    by (simp add: detectContainerEnvironment_def Let_def fresh_state_simps linux_host_simps d1)
  have u1: "read_usage ?c1 ?e1 = Some (Num 1200000)"
    by (simp add: read_usage_def files_of_simps path_defs existsSync_def readFileSync_def
        js_string_defs fl_numeral)
  have c1: "fst (getContainerMemory fresh_state ?e1)
      = Some (container_block 1000000 (Num 1200000))"
    unfolding getContainerMemory_def i1 by (simp add: u1 del: One_nat_def)
  have s2: "js_sub (Num 1073741824) (Num 268435456) = Num 805306368"
    by (simp add: js_sub_def fl_numeral)
  have s1: "js_sub (Num 1000000) (Num 1200000) = Num (- 200000)"
    by (simp add: js_sub_def fl_numeral)
  from memory_free_is_available [of fresh_state linux_host] n f
  have 1: "free (fst (getSystemMemory fresh_state linux_host)) = Num 8589934592
      \<and> available (fst (getSystemMemory fresh_state linux_host)) = Num 8589934592"
    by simp
  from memory_free_is_available [of fresh_state ?ma] nma fma
  have 2: "free (fst (getSystemMemory fresh_state ?ma)) = Num 4294967296
      \<and> available (fst (getSystemMemory fresh_state ?ma)) = Num 4294967296"
    by simp
  from memory_free_is_available [of fresh_state ?dw] ndw fdw
  have 3: "free (fst (getSystemMemory fresh_state ?dw)) = Num 2621440000
      \<and> available (fst (getSystemMemory fresh_state ?dw)) = Num 2621440000"
    by simp
  from memory_free_is_available
         [of fresh_state ?e2 "container_block 1073741824 (Num 268435456)"] c2
  obtain limit usage where
    lu: "memoryLimit (fst (detectContainerEnvironment fresh_state ?e2)) = Some limit"
      "read_usage (fst (detectContainerEnvironment fresh_state ?e2)) ?e2 = Some usage"
    and bl: "total (container_block 1073741824 (Num 268435456)) = limit"
      "used (container_block 1073741824 (Num 268435456)) = usage"
      "free (container_block 1073741824 (Num 268435456)) = Math_max0 (js_sub (Num limit) usage)"
      "available (container_block 1073741824 (Num 268435456))
         = Math_max0 (js_sub (Num limit) usage)"
    and sy: "fst (getSystemMemory fresh_state ?e2) = container_block 1073741824 (Num 268435456)"
    by blast
  from lu have "limit = 1073741824" "usage = Num 268435456"
    unfolding i2 by (simp_all add: u2)
  with bl s2 have 4: "total (container_block 1073741824 (Num 268435456)) = 1073741824"
    "used (container_block 1073741824 (Num 268435456)) = Num 268435456"
    "free (container_block 1073741824 (Num 268435456)) = Num 805306368"
    "available (container_block 1073741824 (Num 268435456)) = Num 805306368"
    by simp_all
  from memory_free_is_available
         [of fresh_state ?e1 "container_block 1000000 (Num 1200000)"] c1
  obtain limit' usage' where
    lu': "memoryLimit (fst (detectContainerEnvironment fresh_state ?e1)) = Some limit'"
      "read_usage (fst (detectContainerEnvironment fresh_state ?e1)) ?e1 = Some usage'"
    and bl': "free (container_block 1000000 (Num 1200000))
                = Math_max0 (js_sub (Num limit') usage')"
      "available (container_block 1000000 (Num 1200000))
         = Math_max0 (js_sub (Num limit') usage')"
    by blast
  from lu' have "limit' = 1000000" "usage' = Num 1200000"
    unfolding i1 by (simp_all add: u1 del: One_nat_def)
  with bl' s1 have 5: "free (container_block 1000000 (Num 1200000)) = Num 0"
    "available (container_block 1000000 (Num 1200000)) = Num 0"
    by simp_all
  obtain m where m: "fst (collect_try fresh_state linux_host) = Inr m"
    using collect_try_returns [of linux_host _ _ fresh_state]
    by (auto simp add: linux_host_simps)
  from memory_free_is_available [of fresh_state linux_host _ m] m 1
  have 6: "free (memory (metrics_system m)) = Num 8589934592
      \<and> available (memory (metrics_system m)) = Num 8589934592"
    by simp
  from n 1 2 3 show ?thesis
    by (simp add: c2 c1 4 5 sy m 6)
qed


section \<open>Settings store: the refresh interval\<close>

lemma NaN_or_fl:
  "(if a then NaN else if b then NaN else fl (of_int k)) = NaN
   \<or> (\<exists>n. (if a then NaN else if b then NaN else fl (of_int k)) = fl (of_int n))"
  by auto

lemma parseInt_cases:
  "parseInt str r = NaN \<or> (\<exists>n. parseInt str r = fl (of_int n))"
  unfolding parseInt_def Let_def by (rule NaN_or_fl)

lemma parseInt_or_cases:
  assumes "d = Infinity \<or> d = NegInfinity \<or> (\<exists>k. k \<noteq> 0 \<and> d = Num (of_int k))"
  shows "parseInt_or v d = Infinity \<or> parseInt_or v d = NegInfinity
         \<or> (\<exists>k. k \<noteq> 0 \<and> parseInt_or v d = Num (of_int k))"
proof (cases "js_truthy (parseInt (ToString v) 0)")
  case False
  then show ?thesis using assms by (simp add: parseInt_or_def)
next
  case True
  then have p: "parseInt_or v d = parseInt (ToString v) 0"
    by (simp add: parseInt_or_def)
  from True have "parseInt (ToString v) 0 \<noteq> NaN" by auto
  with parseInt_cases [of "ToString v" 0]
  obtain n where n: "parseInt (ToString v) 0 = fl (of_int n)" by blast
  from fl_of_int_cases [of n] show ?thesis
  proof (elim disjE exE)
    fix k
    assume k: "fl (real_of_int n) = Num (real_of_int k)"
    with True n have "k \<noteq> 0" by auto
    with k n p show ?thesis by auto
  qed (simp_all add: p n)
qed

lemma post_settings_refreshInterval:
  "refreshInterval (post_settings s body) =
     (case body ''refreshInterval'' of None \<Rightarrow> refreshInterval s
      | Some v \<Rightarrow> parseInt_or v (Num 2000))"
  by (simp add: post_settings_def Let_def split: option.splits)

lemma post_settings_cases:
  assumes "refreshInterval s = Infinity \<or> refreshInterval s = NegInfinity
           \<or> (\<exists>k. k \<noteq> 0 \<and> refreshInterval s = Num (of_int k))"
  shows "refreshInterval (post_settings s body) = Infinity
         \<or> refreshInterval (post_settings s body) = NegInfinity
         \<or> (\<exists>k. k \<noteq> 0 \<and> refreshInterval (post_settings s body) = Num (of_int k))"
proof (cases "body ''refreshInterval''")
  case None
  then show ?thesis using assms by (simp add: post_settings_refreshInterval)
next
  case (Some v)
  have "\<exists>k. k \<noteq> 0 \<and> Num 2000 = Num (real_of_int k)"
    by (rule exI [of _ 2000]) simp
  then have "parseInt_or v (Num 2000) = Infinity \<or> parseInt_or v (Num 2000) = NegInfinity
         \<or> (\<exists>k. k \<noteq> 0 \<and> parseInt_or v (Num 2000) = Num (of_int k))"
    by (intro parseInt_or_cases) blast
  then show ?thesis by (simp add: post_settings_refreshInterval Some)
qed

lemma foldl_post_settings_cases:
  assumes "refreshInterval s = Infinity \<or> refreshInterval s = NegInfinity
           \<or> (\<exists>k. k \<noteq> 0 \<and> refreshInterval s = Num (of_int k))"
  shows "refreshInterval (foldl post_settings s bodies) = Infinity
         \<or> refreshInterval (foldl post_settings s bodies) = NegInfinity
         \<or> (\<exists>k. k \<noteq> 0 \<and> refreshInterval (foldl post_settings s bodies) = Num (of_int k))"
  using assms
proof (induction bodies arbitrary: s)
  case Nil
  then show ?case by simp
next
  case (Cons b bodies)
  from Cons.prems have "refreshInterval (post_settings s b) = Infinity
         \<or> refreshInterval (post_settings s b) = NegInfinity
         \<or> (\<exists>k. k \<noteq> 0 \<and> refreshInterval (post_settings s b) = Num (of_int k))"
    by (rule post_settings_cases)
  then show ?case unfolding foldl_Cons by (rule Cons.IH)
qed

lemma post_settings_unrecognized:
  assumes "dom body \<inter> recognized = {}"
  shows "post_settings s body = s"
proof -
  have "body k = None" if "k \<in> recognized" for k
    using assms that by auto
  then show ?thesis
    by (simp add: post_settings_def recognized_def)
qed

lemma parseInt_overflow:
  "parseInt ''1000000000000000000000000000000000000000000000000000000000000000000000000000000000000000000000000000000000000000000000000000000000000000000000000000000000000000000000000000000000000000000000000000000000000000000000000000000000000000000000000000000000000000000000000000000000000000000000000000000000000000000000'' 0 = Infinity"
  by (simp add: js_string_defs, subst fl_overflow, simp_all add: pow2_eval)

text \<open>
  Claim C9, as stated, fails: the handler stores whatever \<open>parseInt\<close> reads unless that is
  \<open>NaN\<close> or 0, so the body \<open>{"refreshInterval": "-5"}\<close> sets the refresh interval to
  \<open>-5\<close>, which is not positive, and a value of 310 digits sets it to \<open>Infinity\<close>, which
  is no integer.
\<close>

theorem refreshInterval_negative_counterexample:
  "refreshInterval
     (post_settings initial_settings [''refreshInterval'' \<mapsto> JStr ''-5'']) = Num (- 5)
   \<and> refreshInterval
       (post_settings initial_settings [''refreshInterval'' \<mapsto>
          JStr ''1000000000000000000000000000000000000000000000000000000000000000000000000000000000000000000000000000000000000000000000000000000000000000000000000000000000000000000000000000000000000000000000000000000000000000000000000000000000000000000000000000000000000000000000000000000000000000000000000000000000000000000000''])
     = Infinity"
  by (simp add: post_settings_refreshInterval parseInt_or_def ToString_def parseInt_overflow)
    (simp add: js_string_defs fl_numeral)

text \<open>
  Claim C9, amended: after any sequence of settings updates, starting from the defaults,
  \<open>refreshInterval\<close> is never \<open>NaN\<close> and never 0: it is a non-zero integer, which may be
  negative, or one of the infinities. An update whose \<open>refreshInterval\<close> value parses to
  \<open>NaN\<close> or to 0 sets it to 2000, every other update stores what \<open>parseInt\<close> reads; and a
  body with no recognized field leaves the stored settings unchanged.
\<close>

theorem settings_refreshInterval_nonzero:
  "(refreshInterval (foldl post_settings initial_settings bodies) = Infinity
      \<or> refreshInterval (foldl post_settings initial_settings bodies) = NegInfinity
      \<or> (\<exists>k. k \<noteq> 0
            \<and> refreshInterval (foldl post_settings initial_settings bodies) = Num (of_int k)))
   \<and> (parseInt (ToString v) 0 = NaN \<or> parseInt (ToString v) 0 = Num 0 \<longrightarrow>
        refreshInterval (post_settings s (body(''refreshInterval'' \<mapsto> v))) = Num 2000)
   \<and> (js_truthy (parseInt (ToString v) 0) \<longrightarrow>
        refreshInterval (post_settings s (body(''refreshInterval'' \<mapsto> v)))
          = parseInt (ToString v) 0)
   \<and> (dom body' \<inter> recognized = {} \<longrightarrow> post_settings s body' = s)"
proof (intro conjI impI)
  have "\<exists>k. k \<noteq> 0 \<and> refreshInterval initial_settings = Num (real_of_int k)"
    by (rule exI [of _ 2000]) (simp add: initial_settings_def)
  then show "refreshInterval (foldl post_settings initial_settings bodies) = Infinity
      \<or> refreshInterval (foldl post_settings initial_settings bodies) = NegInfinity
      \<or> (\<exists>k. k \<noteq> 0
            \<and> refreshInterval (foldl post_settings initial_settings bodies) = Num (of_int k))"
    by (intro foldl_post_settings_cases) blast
next
  assume "parseInt (ToString v) 0 = NaN \<or> parseInt (ToString v) 0 = Num 0"
  then show "refreshInterval (post_settings s (body(''refreshInterval'' \<mapsto> v))) = Num 2000"
    by (auto simp add: post_settings_refreshInterval parseInt_or_def)
next
  assume "js_truthy (parseInt (ToString v) 0)"
  then show "refreshInterval (post_settings s (body(''refreshInterval'' \<mapsto> v)))
          = parseInt (ToString v) 0"
    by (simp add: post_settings_refreshInterval parseInt_or_def)
next
  assume "dom body' \<inter> recognized = {}"
  then show "post_settings s body' = s" by (rule post_settings_unrecognized)
qed

theorem settings_refreshInterval_nonzero_witness:
  "refreshInterval (foldl post_settings initial_settings
       [[''refreshInterval'' \<mapsto> JStr ''-5''], [''refreshInterval'' \<mapsto> JNumber ''500'']])
     = Num 500
   \<and> parseInt (ToString (JStr ''fast'')) 0 = NaN
   \<and> refreshInterval (post_settings initial_settings
        ([''verbose'' \<mapsto> JBool True](''refreshInterval'' \<mapsto> JStr ''fast''))) = Num 2000
   \<and> parseInt (ToString (JNumber ''0'')) 0 = Num 0
   \<and> refreshInterval (post_settings initial_settings
        ([''verbose'' \<mapsto> JBool True](''refreshInterval'' \<mapsto> JNumber ''0''))) = Num 2000
   \<and> js_truthy (parseInt (ToString (JStr [CHR 0xC2, CHR 0xA0, CHR ''5''])) 0)
   \<and> refreshInterval (post_settings initial_settings
        (Map.empty(''refreshInterval'' \<mapsto> JStr [CHR 0xC2, CHR 0xA0, CHR ''5'']))) = Num 5
   \<and> refreshInterval (post_settings initial_settings
        (Map.empty(''refreshInterval'' \<mapsto> JStr ''-5''))) = Num (- 5)
   \<and> refreshInterval (post_settings initial_settings
        (Map.empty(''refreshInterval'' \<mapsto>
           JStr ''1000000000000000000000000000000000000000000000000000000000000000000000000000000000000000000000000000000000000000000000000000000000000000000000000000000000000000000000000000000000000000000000000000000000000000000000000000000000000000000000000000000000000000000000000000000000000000000000000000000000000000000000'')))
       = Infinity
   \<and> dom [''verbose'' \<mapsto> JBool True] \<inter> recognized = {}
   \<and> post_settings initial_settings [''verbose'' \<mapsto> JBool True] = initial_settings"
proof -
  let ?big = "''1000000000000000000000000000000000000000000000000000000000000000000000000000000000000000000000000000000000000000000000000000000000000000000000000000000000000000000000000000000000000000000000000000000000000000000000000000000000000000000000000000000000000000000000000000000000000000000000000000000000000000000000''"
  let ?nb = "[CHR 0xC2, CHR 0xA0, CHR ''5'']"
  let ?bodies = "[[''refreshInterval'' \<mapsto> JStr ''-5''],
                  [''refreshInterval'' \<mapsto> JNumber ''500'']]"
  note T = settings_refreshInterval_nonzero
  have p: "parseInt (ToString (JStr ''fast'')) 0 = NaN"
    by (simp add: ToString_def js_string_defs)
  have z: "parseInt (ToString (JNumber ''0'')) 0 = Num 0"
    by (simp add: ToString_def js_string_defs fl_numeral)
  have nb: "parseInt (ToString (JStr ?nb)) 0 = Num 5"
    by (simp add: ToString_def js_string_defs fl_numeral)
  have m5: "parseInt (ToString (JStr ''-5'')) 0 = Num (- 5)"
    by (simp add: ToString_def js_string_defs fl_numeral)
  have bg: "parseInt (ToString (JStr ?big)) 0 = Infinity"
    by (simp add: ToString_def parseInt_overflow)
  have d: "dom [''verbose'' \<mapsto> JBool True] \<inter> recognized = {}"
    by (simp add: recognized_def)
  have f: "refreshInterval (foldl post_settings initial_settings ?bodies) = Num 500"
    by (simp add: post_settings_refreshInterval parseInt_or_def ToString_def js_string_defs
        fl_numeral)
  from T [of ?bodies] f
  have 0: "\<exists>k. k \<noteq> 0 \<and> Num 500 = Num (real_of_int k)" by simp
  from T [of _ "JStr ''fast''" initial_settings "[''verbose'' \<mapsto> JBool True]"] p
  have 1: "refreshInterval (post_settings initial_settings
        ([''verbose'' \<mapsto> JBool True](''refreshInterval'' \<mapsto> JStr ''fast''))) = Num 2000"
    by blast
  from T [of _ "JNumber ''0''" initial_settings "[''verbose'' \<mapsto> JBool True]"] z
  have 2: "refreshInterval (post_settings initial_settings
        ([''verbose'' \<mapsto> JBool True](''refreshInterval'' \<mapsto> JNumber ''0''))) = Num 2000"
    by blast
  from T [of _ "JStr ?nb" initial_settings Map.empty] nb
  have 3: "refreshInterval (post_settings initial_settings
        (Map.empty(''refreshInterval'' \<mapsto> JStr ?nb))) = Num 5"
    by simp
  from T [of _ "JStr ''-5''" initial_settings Map.empty] m5
  have 4: "refreshInterval (post_settings initial_settings
        (Map.empty(''refreshInterval'' \<mapsto> JStr ''-5''))) = Num (- 5)"
    by simp
  from T [of _ "JStr ?big" initial_settings Map.empty] bg
  have 5: "refreshInterval (post_settings initial_settings
        (Map.empty(''refreshInterval'' \<mapsto> JStr ?big))) = Infinity"
    by simp
  from T [of _ _ initial_settings _ "[''verbose'' \<mapsto> JBool True]"] d
  have 6: "post_settings initial_settings [''verbose'' \<mapsto> JBool True] = initial_settings"
    by blast
  from f p 1 z 2 nb 3 4 5 d 6 show ?thesis by simp
qed


section \<open>Metrics aggregator: cache and failure\<close>

lemma round_even_le_double:
  assumes "0 \<le> t"
  shows "0 \<le> round_even t" and "real_of_int (round_even t) \<le> 2 * t"
proof -
  have f: "0 \<le> \<lfloor>t\<rfloor>" using assms by simp
  then show "0 \<le> round_even t" by (simp add: round_even_def Let_def)
  have l: "real_of_int \<lfloor>t\<rfloor> \<le> t" by simp
  from f have f': "0 \<le> real_of_int \<lfloor>t\<rfloor>" by simp
  show "real_of_int (round_even t) \<le> 2 * t"
  proof (cases "t - real_of_int \<lfloor>t\<rfloor> < 1 / 2")
    case True
    then have "round_even t = \<lfloor>t\<rfloor>" by (simp add: round_even_def Let_def)
    with l assms show ?thesis by linarith
  next
    case False
    then have h: "real_of_int \<lfloor>t\<rfloor> + 1 / 2 \<le> t" by linarith
    have "round_even t \<le> \<lfloor>t\<rfloor> + 1" by (simp add: round_even_def Let_def)
    then have "real_of_int (round_even t) \<le> real_of_int \<lfloor>t\<rfloor> + 1" by linarith
    with h f' show ?thesis by linarith
  qed
qed

text \<open>The double nearest to a non-negative real is between 0 and twice that real.\<close>

lemma fl_le_double:
  assumes "0 \<le> x" "2 * x < pow2 1024"
  shows "\<exists>y. fl x = Num y \<and> 0 \<le> y \<and> y \<le> 2 * x"
proof (cases "x = 0")
  case True
  then show ?thesis by (simp add: fl_def)
next
  case False
  let ?u = "pow2 (find_e x (- 1022) - 52)"
  let ?r = "real_of_int (round_even (x / ?u)) * ?u"
  have u: "0 < ?u" by simp
  then have t: "0 \<le> x / ?u" using assms(1) by simp
  from round_even_le_double [OF t]
  have a: "0 \<le> real_of_int (round_even (x / ?u))"
    and b: "real_of_int (round_even (x / ?u)) \<le> 2 * (x / ?u)"
    by simp_all
  from a u have r0: "0 \<le> ?r" by simp
  from b u have "?r \<le> 2 * (x / ?u) * ?u"
    by (intro mult_right_mono) simp_all
  then have r2: "?r \<le> 2 * x" by simp
  with assms(2) r0 have "\<not> pow2 1024 \<le> \<bar>?r\<bar>" by linarith
  then have "fl x = Num ?r"
    using False unfolding fl_def Let_def by simp
  with r0 r2 show ?thesis by blast
qed

lemma half_interval_le:
  assumes "0 \<le> r" "r < pow2 1024" "r < d"
  shows "\<not> js_lt (Num d) (js_div (Num r) (Num 2))"
proof -
  from fl_le_double [of "r / 2"] assms(1,2)
  obtain y where "fl (r / 2) = Num y" "y \<le> 2 * (r / 2)" by auto
  with assms(3) show ?thesis by simp
qed

lemma collectMetrics_hit:
  "cache_hit s (Date_now e) = Some d \<Longrightarrow> collectMetrics s e = (Metrics d, s)"
  by (simp add: collectMetrics_def)

lemma collectMetrics_fresh:
  assumes "cache_hit s (Date_now e) = None" "fst (collect_try s e) = Inr m"
  shows "fst (collectMetrics s e) = Metrics m"
    and "metricsCache (snd (collectMetrics s e)) = \<lparr>data = Some m, cache_timestamp = Date_now e\<rparr>"
    and "settings (snd (collectMetrics s e)) = settings s"
proof -
  obtain s' where p: "collect_try s e = (Inr m, s')"
    using assms(2) by (cases "collect_try s e") simp
  with collect_try_frame(2) [of s e] have f: "settings s' = settings s" by simp
  show "fst (collectMetrics s e) = Metrics m"
    and "metricsCache (snd (collectMetrics s e)) = \<lparr>data = Some m, cache_timestamp = Date_now e\<rparr>"
    and "settings (snd (collectMetrics s e)) = settings s"
    using assms(1) p f by (simp_all add: collectMetrics_def)
qed

lemma collectMetrics_caught:
  assumes "cache_hit s (Date_now e) = None" "fst (collect_try s e) = Inl msg"
  shows "fst (collectMetrics s e) =
           (case data (metricsCache s) of Some d \<Rightarrow> Metrics d | None \<Rightarrow> ErrorIndicator msg)"
    and "metricsCache (snd (collectMetrics s e)) = metricsCache s"
    and "settings (snd (collectMetrics s e)) = settings s"
proof -
  obtain s' where p: "collect_try s e = (Inl msg, s')"
    using assms(2) by (cases "collect_try s e") simp
  with collect_try_frame [of s e]
  have f: "metricsCache s' = metricsCache s" "settings s' = settings s" by simp_all
  show "fst (collectMetrics s e) =
           (case data (metricsCache s) of Some d \<Rightarrow> Metrics d | None \<Rightarrow> ErrorIndicator msg)"
    and "metricsCache (snd (collectMetrics s e)) = metricsCache s"
    and "settings (snd (collectMetrics s e)) = settings s"
    using assms(1) p f by (simp_all add: collectMetrics_def)
qed

lemma cache_hit_Some:
  "cache_hit s now = Some d \<longleftrightarrow>
     data (metricsCache s) = Some d
     \<and> js_lt (Num (real_of_int (now - cache_timestamp (metricsCache s))))
         (js_div (refreshInterval (settings s)) (Num 2))"
  by (simp add: cache_hit_def del: js_div.simps split: option.splits)

lemma cache_hit_None:
  "cache_hit s now = None \<longleftrightarrow>
     data (metricsCache s) = None
     \<or> \<not> js_lt (Num (real_of_int (now - cache_timestamp (metricsCache s))))
           (js_div (refreshInterval (settings s)) (Num 2))"
  by (simp add: cache_hit_def del: js_div.simps split: option.splits)

lemma collectMetrics_settings [simp]:
  "settings (snd (collectMetrics s e)) = settings s"
proof (cases "cache_hit s (Date_now e)")
  case (Some d)
  then show ?thesis by (simp add: collectMetrics_hit)
next
  case None
  then show ?thesis
    by (cases "fst (collect_try s e)") (simp_all add: collectMetrics_fresh collectMetrics_caught)
qed

text \<open>What a call that answers with a snapshot leaves behind, on a consistent cache.\<close>

lemma collectMetrics_keeps_consistent:
  assumes "cache_consistent s (Date_now e)" "fst (collectMetrics s e) = Metrics m"
  shows "data (metricsCache (snd (collectMetrics s e))) = Some m
         \<and> timestamp m = cache_timestamp (metricsCache (snd (collectMetrics s e)))
         \<and> cache_timestamp (metricsCache (snd (collectMetrics s e))) \<le> Date_now e"
proof (cases "cache_hit s (Date_now e)")
  case (Some d)
  with assms(2) have "m = d" by (simp add: collectMetrics_hit)
  with Some assms(1) show ?thesis
    by (simp add: collectMetrics_hit cache_hit_Some cache_consistent_def del: js_div.simps)
next
  case None
  show ?thesis
  proof (cases "fst (collect_try s e)")
    case (Inr m')
    with None assms(2) have "m' = m" by (simp add: collectMetrics_fresh)
    with None Inr collect_try_timestamp [of s e m] show ?thesis
      by (simp add: collectMetrics_fresh)
  next
    case (Inl msg)
    with None assms show ?thesis
      by (auto simp add: collectMetrics_caught cache_consistent_def split: option.splits)
  qed
qed

lemma cache_consistent_initial: "cache_consistent (initial_state u t) now"
  by (simp add: cache_consistent_def initial_state_def)

lemma cache_consistent_step:
  assumes "cache_consistent s (Date_now e)" "Date_now e \<le> now'"
  shows "cache_consistent (snd (collectMetrics s e)) now'"
proof (cases "fst (collectMetrics s e)")
  case (Metrics m)
  from collectMetrics_keeps_consistent [OF assms(1) Metrics] assms(2)
  show ?thesis by (simp add: cache_consistent_def)
next
  case (ErrorIndicator msg)
  have "data (metricsCache (snd (collectMetrics s e))) = None"
  proof (cases "cache_hit s (Date_now e)")
    case (Some d)
    with ErrorIndicator show ?thesis by (simp add: collectMetrics_hit)
  next
    case None
    show ?thesis
    proof (cases "fst (collect_try s e)")
      case (Inr m')
      with None ErrorIndicator show ?thesis by (simp add: collectMetrics_fresh)
    next
      case (Inl msg')
      with None ErrorIndicator show ?thesis
        by (auto simp add: collectMetrics_caught split: option.splits)
    qed
  qed
  then show ?thesis by (simp add: cache_consistent_def)
qed

lemma half_2000: "js_div (Num 2000) (Num 2) = Num 1000"
  by (simp add: fl_numeral)

lemma half_minus_5: "js_div (Num (- 5)) (Num 2) = Num (- (5 / 2))"
  by (simp, subst fl_eval [where e = 1], simp_all add: round_even_def pow2_eval)

text \<open>
  Claim C2: when the assembly of a snapshot ends with an exception (in this model
  \<open>process.memoryUsage()\<close> throwing at its start, or \<open>os.uptime()\<close> throwing after all
  samplers have run), \<open>collectMetrics\<close> still returns a response and never the exception:
  the cached snapshot if there is one, and otherwise the object that holds only the
  message of the error; the cache is the same after the call as before it.
\<close>

theorem collectMetrics_failure:
  "(cache_hit s (Date_now e) = None \<and> fst (collect_try s e) = Inl msg \<longrightarrow>
      fst (collectMetrics s e) =
        (case data (metricsCache s) of Some d \<Rightarrow> Metrics d | None \<Rightarrow> ErrorIndicator msg)
      \<and> metricsCache (snd (collectMetrics s e)) = metricsCache s)
   \<and> (process_memoryUsage e = Inl msg
       \<or> (\<exists>mu. process_memoryUsage e = Inr mu) \<and> os_uptime e = Inl msg \<longrightarrow>
      fst (collect_try s e) = Inl msg)"
proof (intro conjI impI)
  assume h: "cache_hit s (Date_now e) = None \<and> fst (collect_try s e) = Inl msg"
  then show "fst (collectMetrics s e) =
       (case data (metricsCache s) of Some d \<Rightarrow> Metrics d | None \<Rightarrow> ErrorIndicator msg)"
    by (simp add: collectMetrics_caught)
  from h show "metricsCache (snd (collectMetrics s e)) = metricsCache s"
    by (simp add: collectMetrics_caught)
next
  assume "process_memoryUsage e = Inl msg
       \<or> (\<exists>mu. process_memoryUsage e = Inr mu) \<and> os_uptime e = Inl msg"
  then show "fst (collect_try s e) = Inl msg" by (rule collect_try_throws)
qed

theorem collectMetrics_failure_witness:
  "cache_hit fresh_state 10000 = None
   \<and> fst (collectMetrics fresh_state
            (linux_host\<lparr>process_memoryUsage := Inl ''Test error''\<rparr>))
       = ErrorIndicator ''Test error''
   \<and> cache_hit (snd (collectMetrics fresh_state linux_host)) 12000 = None
   \<and> fst (collectMetrics (snd (collectMetrics fresh_state linux_host))
            (linux_host\<lparr>Date_now := 12000, os_uptime := Inl ''uptime failed''\<rparr>))
       = fst (collectMetrics fresh_state linux_host)
   \<and> metricsCache (snd (collectMetrics (snd (collectMetrics fresh_state linux_host))
            (linux_host\<lparr>Date_now := 12000, os_uptime := Inl ''uptime failed''\<rparr>)))
       = metricsCache (snd (collectMetrics fresh_state linux_host))"
proof -
  let ?e1 = "linux_host\<lparr>process_memoryUsage := Inl ''Test error''\<rparr>"
  let ?s1 = "snd (collectMetrics fresh_state linux_host)"
  let ?e2 = "linux_host\<lparr>Date_now := 12000, os_uptime := Inl ''uptime failed''\<rparr>"
  have m0: "cache_hit fresh_state 10000 = None"
    by (simp add: cache_hit_def fresh_state_simps)
  from collectMetrics_failure [of fresh_state ?e1 "''Test error''"] m0
  have 1: "fst (collectMetrics fresh_state ?e1) = ErrorIndicator ''Test error''"
    by (simp add: linux_host_simps fresh_state_simps)
  have up: "process_memoryUsage ?e2 = Inl ''uptime failed''
      \<or> (\<exists>mu. process_memoryUsage ?e2 = Inr mu) \<and> os_uptime ?e2 = Inl ''uptime failed''"
    by (simp add: linux_host_simps)
  obtain m where m: "fst (collect_try fresh_state linux_host) = Inr m"
    using collect_try_returns [of linux_host _ _ fresh_state]
    by (auto simp add: linux_host_simps)
  from m0 m have r: "fst (collectMetrics fresh_state linux_host) = Metrics m"
    and c: "metricsCache ?s1 = \<lparr>data = Some m, cache_timestamp = 10000\<rparr>"
    by (simp_all add: collectMetrics_fresh linux_host_simps)
  have s: "settings ?s1 = initial_settings"
    by (simp add: fresh_state_simps)
  have m1: "cache_hit ?s1 12000 = None"
    by (simp add: cache_hit_def c fresh_state_simps initial_settings_def fl_numeral)
  from collectMetrics_failure [of ?s1 ?e2 "''uptime failed''"] up
  have t: "fst (collect_try ?s1 ?e2) = Inl ''uptime failed''" by blast
  from collectMetrics_failure [of ?s1 ?e2 "''uptime failed''"] m1 t
  have 2: "fst (collectMetrics ?s1 ?e2) = Metrics m
      \<and> metricsCache (snd (collectMetrics ?s1 ?e2)) = metricsCache ?s1"
    by (simp add: c)
  from m0 1 m1 2 r show ?thesis by simp
qed

text \<open>
  Claim C1, as stated, fails in its last part. First trace: the cache is filled at clock
  reading 10000, then the clock is set back; the calls at 5000 and at 8000, more than the
  refresh interval of 2000 apart, are both served from the cache and return the timestamp
  10000. Second trace: the refresh interval has been set to \<open>-5\<close>; two calls at the same
  clock reading 10000 are more than \<open>-5\<close> apart, both sample afresh, and both return the
  timestamp 10000.
\<close>

theorem collectMetrics_timestamps_counterexample:
  "refreshInterval (settings (snd (collectMetrics fresh_state linux_host))) = Num 2000
   \<and> response_timestamp (fst (collectMetrics (snd (collectMetrics fresh_state linux_host))
        (linux_host\<lparr>Date_now := 5000\<rparr>))) = Some 10000
   \<and> response_timestamp (fst (collectMetrics
        (snd (collectMetrics (snd (collectMetrics fresh_state linux_host))
           (linux_host\<lparr>Date_now := 5000\<rparr>)))
        (linux_host\<lparr>Date_now := 8000\<rparr>))) = Some 10000
   \<and> response_timestamp (fst (collectMetrics
        (fresh_state\<lparr>settings := post_settings initial_settings
                                     [''refreshInterval'' \<mapsto> JStr ''-5'']\<rparr>)
        linux_host)) = Some 10000
   \<and> response_timestamp (fst (collectMetrics
        (snd (collectMetrics
           (fresh_state\<lparr>settings := post_settings initial_settings
                                        [''refreshInterval'' \<mapsto> JStr ''-5'']\<rparr>)
           linux_host))
        linux_host)) = Some 10000"
proof -
  let ?s1 = "snd (collectMetrics fresh_state linux_host)"
  let ?e5 = "linux_host\<lparr>Date_now := 5000\<rparr>"
  let ?e8 = "linux_host\<lparr>Date_now := 8000\<rparr>"
  let ?n = "fresh_state\<lparr>settings := post_settings initial_settings
                                          [''refreshInterval'' \<mapsto> JStr ''-5'']\<rparr>"
  let ?n1 = "snd (collectMetrics ?n linux_host)"
  have m0: "cache_hit fresh_state 10000 = None"
    by (simp add: cache_hit_def fresh_state_simps)
  obtain m where m: "fst (collect_try fresh_state linux_host) = Inr m"
      and tm: "timestamp m = 10000"
    using collect_try_returns [of linux_host _ _ fresh_state]
    by (auto simp add: linux_host_simps)
  from m0 m have c: "metricsCache ?s1 = \<lparr>data = Some m, cache_timestamp = 10000\<rparr>"
    by (simp add: collectMetrics_fresh linux_host_simps)
  have s: "settings ?s1 = initial_settings" by (simp add: fresh_state_simps)
  have h5: "cache_hit ?s1 5000 = Some m"
    by (simp add: cache_hit_def c fresh_state_simps initial_settings_def fl_numeral)
  then have r5: "collectMetrics ?s1 ?e5 = (Metrics m, ?s1)"
    by (simp add: collectMetrics_hit)
  have h8: "cache_hit ?s1 8000 = Some m"
    by (simp add: cache_hit_def c fresh_state_simps initial_settings_def fl_numeral)
  then have r8: "collectMetrics ?s1 ?e8 = (Metrics m, ?s1)"
    by (simp add: collectMetrics_hit)
  have neg: "refreshInterval (settings ?n) = Num (- 5)"
    by (simp add: post_settings_refreshInterval parseInt_or_def ToString_def js_string_defs
        fl_numeral)
  have n0: "cache_hit ?n 10000 = None"
    by (simp add: cache_hit_def fresh_state_simps)
  obtain k where k: "fst (collect_try ?n linux_host) = Inr k" and tk: "timestamp k = 10000"
    using collect_try_returns [of linux_host _ _ ?n]
    by (auto simp add: linux_host_simps)
  from n0 k have rk: "fst (collectMetrics ?n linux_host) = Metrics k"
    and ck: "metricsCache ?n1 = \<lparr>data = Some k, cache_timestamp = 10000\<rparr>"
    by (simp_all add: collectMetrics_fresh linux_host_simps)
  have "settings ?n1 = settings ?n" by simp
  with neg have n1: "cache_hit ?n1 10000 = None"
    by (simp add: cache_hit_def ck half_minus_5 del: js_div.simps)
  obtain k' where k': "fst (collect_try ?n1 linux_host) = Inr k'"
      and tk': "timestamp k' = 10000"
    using collect_try_returns [of linux_host _ _ ?n1]
    by (auto simp add: linux_host_simps)
  from n1 k' have rk': "fst (collectMetrics ?n1 linux_host) = Metrics k'"
    by (simp add: collectMetrics_fresh linux_host_simps)
  have a: "refreshInterval (settings ?s1) = Num 2000"
    by (simp add: fresh_state_simps initial_settings_def)
  have b: "response_timestamp (fst (collectMetrics ?s1 ?e5)) = Some 10000"
    by (simp add: r5 response_timestamp_def tm)
  have b': "response_timestamp (fst (collectMetrics (snd (collectMetrics ?s1 ?e5)) ?e8))
      = Some 10000"
    by (simp add: r5 r8 response_timestamp_def tm)
  have d: "response_timestamp (fst (collectMetrics ?n linux_host)) = Some 10000"
    by (simp add: rk response_timestamp_def tk)
  have d': "response_timestamp (fst (collectMetrics ?n1 linux_host)) = Some 10000"
    by (simp add: rk' response_timestamp_def tk')
  from a b b' d d' show ?thesis by blast
qed

text \<open>
  Claim C1, amended: if the cache holds a snapshot and
  \<open>now - cache.timestamp < refreshInterval / 2\<close>, \<open>collectMetrics\<close> returns the cached
  snapshot and changes nothing, so no sampler runs and all calls in that window return the
  same timestamp; otherwise, when the assembly does not throw, it returns a fresh snapshot
  timestamped \<open>now\<close> and the cache becomes that snapshot with timestamp \<open>now\<close>. Two calls
  that answer with snapshots, the second more than \<open>refreshInterval\<close> after the first and
  assembling without an exception, return strictly increasing timestamps, provided that
  the refresh interval is a finite number that is not negative and that, at the first
  call, the clock has not been set back behind the timestamp of the cache. The quotient
  \<open>refreshInterval / 2\<close> is the rounded one of the program.
\<close>

theorem collectMetrics_cache:
  "(data (metricsCache s) = Some d
      \<and> js_lt (Num (real_of_int (Date_now e - cache_timestamp (metricsCache s))))
            (js_div (refreshInterval (settings s)) (Num 2)) \<longrightarrow>
      collectMetrics s e = (Metrics d, s))
   \<and> ((data (metricsCache s) = None
        \<or> \<not> js_lt (Num (real_of_int (Date_now e - cache_timestamp (metricsCache s))))
                (js_div (refreshInterval (settings s)) (Num 2)))
      \<and> fst (collect_try s e) = Inr m \<longrightarrow>
      fst (collectMetrics s e) = Metrics m \<and> timestamp m = Date_now e
      \<and> metricsCache (snd (collectMetrics s e))
          = \<lparr>data = Some m, cache_timestamp = Date_now e\<rparr>)
   \<and> (cache_consistent s (Date_now e)
      \<and> refreshInterval (settings s) = Num r \<and> 0 \<le> r \<and> r < pow2 1024
      \<and> fst (collectMetrics s e) = Metrics m1
      \<and> r < real_of_int (Date_now e' - Date_now e)
      \<and> fst (collect_try (snd (collectMetrics s e)) e') = Inr m'
      \<and> fst (collectMetrics (snd (collectMetrics s e)) e') = Metrics m2 \<longrightarrow>
      timestamp m1 < timestamp m2)"
proof (intro conjI impI)
  assume "data (metricsCache s) = Some d
      \<and> js_lt (Num (real_of_int (Date_now e - cache_timestamp (metricsCache s))))
            (js_div (refreshInterval (settings s)) (Num 2))"
  then have "cache_hit s (Date_now e) = Some d" by (simp only: cache_hit_Some simp_thms)
  then show "collectMetrics s e = (Metrics d, s)" by (rule collectMetrics_hit)
next
  assume h: "(data (metricsCache s) = None
        \<or> \<not> js_lt (Num (real_of_int (Date_now e - cache_timestamp (metricsCache s))))
                (js_div (refreshInterval (settings s)) (Num 2)))
      \<and> fst (collect_try s e) = Inr m"
  then have miss: "cache_hit s (Date_now e) = None" by (simp only: cache_hit_None)
  from h have ok: "fst (collect_try s e) = Inr m" by simp
  show "fst (collectMetrics s e) = Metrics m"
    using miss ok by (rule collectMetrics_fresh(1))
  show "timestamp m = Date_now e"
    using ok by (rule collect_try_timestamp)
  show "metricsCache (snd (collectMetrics s e)) = \<lparr>data = Some m, cache_timestamp = Date_now e\<rparr>"
    using miss ok by (rule collectMetrics_fresh(2))
next
  let ?s1 = "snd (collectMetrics s e)"
  assume h: "cache_consistent s (Date_now e)
      \<and> refreshInterval (settings s) = Num r \<and> 0 \<le> r \<and> r < pow2 1024
      \<and> fst (collectMetrics s e) = Metrics m1
      \<and> r < real_of_int (Date_now e' - Date_now e)
      \<and> fst (collect_try ?s1 e') = Inr m'
      \<and> fst (collectMetrics ?s1 e') = Metrics m2"
  then have first: "data (metricsCache ?s1) = Some m1
         \<and> timestamp m1 = cache_timestamp (metricsCache ?s1)
         \<and> cache_timestamp (metricsCache ?s1) \<le> Date_now e"
    using collectMetrics_keeps_consistent [of s e m1] by simp
  have "r < real_of_int (Date_now e' - cache_timestamp (metricsCache ?s1))"
    using h first by simp
  with h have "\<not> js_lt (Num (real_of_int (Date_now e' - cache_timestamp (metricsCache ?s1))))
                 (js_div (Num r) (Num 2))"
    by (intro half_interval_le) simp_all
  moreover from h have "refreshInterval (settings ?s1) = Num r" by simp
  ultimately have miss: "cache_hit ?s1 (Date_now e') = None"
    by (simp only: cache_hit_None simp_thms)
  from h have ok: "fst (collect_try ?s1 e') = Inr m'" by simp
  from miss ok have "fst (collectMetrics ?s1 e') = Metrics m'"
    by (rule collectMetrics_fresh(1))
  with h have "m2 = m'" by simp
  with ok have "timestamp m2 = Date_now e'" by (simp add: collect_try_timestamp)
  with h first show "timestamp m1 < timestamp m2" by linarith
qed

theorem collectMetrics_cache_witness:
  "cache_consistent fresh_state 10000
   \<and> refreshInterval (settings fresh_state) = Num 2000
   \<and> (0::real) \<le> 2000 \<and> 2000 < pow2 1024 \<and> (2000::real) < real_of_int (12500 - 10000)
   \<and> response_timestamp (fst (collectMetrics fresh_state linux_host)) = Some 10000
   \<and> collectMetrics (snd (collectMetrics fresh_state linux_host))
        (linux_host\<lparr>Date_now := 10900\<rparr>)
       = (fst (collectMetrics fresh_state linux_host),
          snd (collectMetrics fresh_state linux_host))
   \<and> response_timestamp (fst (collectMetrics (snd (collectMetrics fresh_state linux_host))
        (linux_host\<lparr>Date_now := 12500\<rparr>))) = Some 12500"
proof -
  let ?s1 = "snd (collectMetrics fresh_state linux_host)"
  let ?e9 = "linux_host\<lparr>Date_now := 10900\<rparr>"
  let ?e12 = "linux_host\<lparr>Date_now := 12500\<rparr>"
  have cc: "cache_consistent fresh_state 10000"
    by (simp add: fresh_state_def cache_consistent_initial)
  obtain m where m: "fst (collect_try fresh_state linux_host) = Inr m"
    using collect_try_returns [of linux_host _ _ fresh_state]
    by (auto simp add: linux_host_simps)
  from collectMetrics_cache [of fresh_state _ linux_host m] m
  have 1: "fst (collectMetrics fresh_state linux_host) = Metrics m \<and> timestamp m = 10000
      \<and> metricsCache ?s1 = \<lparr>data = Some m, cache_timestamp = 10000\<rparr>"
    by (simp add: fresh_state_simps linux_host_simps)
  have s: "settings ?s1 = initial_settings" by (simp add: fresh_state_simps)
  from collectMetrics_cache [of ?s1 m ?e9] 1
  have 2: "collectMetrics ?s1 ?e9 = (Metrics m, ?s1)"
    by (simp add: fresh_state_simps initial_settings_def fl_numeral)
  obtain m' where m': "fst (collect_try ?s1 ?e12) = Inr m'"
    using collect_try_returns [of ?e12 _ _ ?s1]
    by (auto simp add: linux_host_simps)
  from collectMetrics_cache [of ?s1 _ ?e12 m'] 1 m'
  have 3: "fst (collectMetrics ?s1 ?e12) = Metrics m' \<and> timestamp m' = 12500"
    by (simp add: fresh_state_simps initial_settings_def fl_numeral)
  have ri: "refreshInterval (settings fresh_state) = Num 2000"
    by (simp add: fresh_state_simps initial_settings_def)
  have fin: "(2000::real) < pow2 1024" by (simp add: pow2_eval)
  from collectMetrics_cache [of fresh_state _ linux_host _ 2000 m ?e12 m' m'] cc ri fin 1 m' 3
  have 4: "timestamp m < timestamp m'"
    by (simp add: linux_host_simps)
  from cc ri fin 1 2 3 4 show ?thesis
    by (simp add: response_timestamp_def)
qed



end
